theory Spec2Isabelle
  imports Complex_Main "HOL-Library.Word"
begin

section \<open>The Python bindings of libsevenzip\<close>

text \<open>
  The development embeds the two binding modules of the repository:
  \<^verbatim>\<open>examples/python/sevenzip.py\<close> (the classes \<open>Archive\<close> and \<open>Writer\<close> and the
  facades \<open>extract_archive\<close> and \<open>create_archive\<close>) and
  \<^verbatim>\<open>examples/python/sevenzip_ffi.py\<close> (the class \<open>SevenZip\<close>).

  Python values are modelled as follows. A \<open>bytes\<close> object is a \<open>string\<close>, the list
  of its bytes, and a \<open>str\<close> is given by its encoding in UTF-8: \<open>encode('utf-8')\<close> is
  the identity, and \<open>decode('utf-8')\<close> returns the bytes it is given when they are
  well-formed UTF-8 and raises \<open>UnicodeDecodeError\<close> when they are not. An
  \<open>IntEnum\<close> is a datatype with its value function and its member names. A raised
  exception is the \<open>Inl\<close> of a sum. The messages of the module, which are Chinese
  text in the source, are rendered by English glosses.
\<close>

type_synonym bytes = string

subsection \<open>Enumerations of sevenzip.py\<close>

datatype SzResult =
    OK | FAIL | OUT_OF_MEMORY | FILE_NOT_FOUND | ACCESS_DENIED | INVALID_ARGUMENT
  | UNSUPPORTED_FORMAT | CORRUPTED_ARCHIVE | WRONG_PASSWORD | UNKNOWN_ERROR
  | INDEX_OUT_OF_RANGE | BUFFER_TOO_SMALL | OPERATION_CANCELLED | WRITE_ERROR
  | READ_ERROR | NOT_IMPLEMENTED | DISK_FULL

fun SzResult_value :: "SzResult \<Rightarrow> int" where
  "SzResult_value OK = 0"
| "SzResult_value FAIL = 1"
| "SzResult_value OUT_OF_MEMORY = 2"
| "SzResult_value FILE_NOT_FOUND = 3"
| "SzResult_value ACCESS_DENIED = 4"
| "SzResult_value INVALID_ARGUMENT = 5"
| "SzResult_value UNSUPPORTED_FORMAT = 6"
| "SzResult_value CORRUPTED_ARCHIVE = 7"
| "SzResult_value WRONG_PASSWORD = 8"
| "SzResult_value UNKNOWN_ERROR = 9"
| "SzResult_value INDEX_OUT_OF_RANGE = 10"
| "SzResult_value BUFFER_TOO_SMALL = 11"
| "SzResult_value OPERATION_CANCELLED = 12"
| "SzResult_value WRITE_ERROR = 13"
| "SzResult_value READ_ERROR = 14"
| "SzResult_value NOT_IMPLEMENTED = 15"
| "SzResult_value DISK_FULL = 16"

fun SzResult_name :: "SzResult \<Rightarrow> string" where
  "SzResult_name OK = ''OK''"
| "SzResult_name FAIL = ''FAIL''"
| "SzResult_name OUT_OF_MEMORY = ''OUT_OF_MEMORY''"
| "SzResult_name FILE_NOT_FOUND = ''FILE_NOT_FOUND''"
| "SzResult_name ACCESS_DENIED = ''ACCESS_DENIED''"
| "SzResult_name INVALID_ARGUMENT = ''INVALID_ARGUMENT''"
| "SzResult_name UNSUPPORTED_FORMAT = ''UNSUPPORTED_FORMAT''"
| "SzResult_name CORRUPTED_ARCHIVE = ''CORRUPTED_ARCHIVE''"
| "SzResult_name WRONG_PASSWORD = ''WRONG_PASSWORD''"
| "SzResult_name UNKNOWN_ERROR = ''UNKNOWN_ERROR''"
| "SzResult_name INDEX_OUT_OF_RANGE = ''INDEX_OUT_OF_RANGE''"
| "SzResult_name BUFFER_TOO_SMALL = ''BUFFER_TOO_SMALL''"
| "SzResult_name OPERATION_CANCELLED = ''OPERATION_CANCELLED''"
| "SzResult_name WRITE_ERROR = ''WRITE_ERROR''"
| "SzResult_name READ_ERROR = ''READ_ERROR''"
| "SzResult_name NOT_IMPLEMENTED = ''NOT_IMPLEMENTED''"
| "SzResult_name DISK_FULL = ''DISK_FULL''"

definition SzResult_all :: "SzResult list" where
  "SzResult_all =
     [OK, FAIL, OUT_OF_MEMORY, FILE_NOT_FOUND, ACCESS_DENIED, INVALID_ARGUMENT,
      UNSUPPORTED_FORMAT, CORRUPTED_ARCHIVE, WRONG_PASSWORD, UNKNOWN_ERROR,
      INDEX_OUT_OF_RANGE, BUFFER_TOO_SMALL, OPERATION_CANCELLED, WRITE_ERROR,
      READ_ERROR, NOT_IMPLEMENTED, DISK_FULL]"

text \<open>The members of the enumeration, by name, in the order of the class body.\<close>

definition SzResult_members :: "(string \<times> int) list" where
  "SzResult_members = map (\<lambda>m. (SzResult_name m, SzResult_value m)) SzResult_all"

text \<open>\<open>SzResult(result)\<close>: the member of that value; \<open>None\<close> stands for the
  \<open>ValueError\<close> Python raises when no member has it.\<close>

definition SzResult_of_int :: "int \<Rightarrow> SzResult option" where
  "SzResult_of_int r = find (\<lambda>m. SzResult_value m = r) SzResult_all"

datatype SzFormat = SEVEN_Z | ZIP | TAR | GZIP | BZIP2 | XZ | RAR | CAB | ISO | WIM

fun SzFormat_value :: "SzFormat \<Rightarrow> int" where
  "SzFormat_value SEVEN_Z = 0"
| "SzFormat_value ZIP = 1"
| "SzFormat_value TAR = 2"
| "SzFormat_value GZIP = 3"
| "SzFormat_value BZIP2 = 4"
| "SzFormat_value XZ = 5"
| "SzFormat_value RAR = 6"
| "SzFormat_value CAB = 7"
| "SzFormat_value ISO = 8"
| "SzFormat_value WIM = 9"

fun SzFormat_name :: "SzFormat \<Rightarrow> string" where
  "SzFormat_name SEVEN_Z = ''SEVEN_Z''"
| "SzFormat_name ZIP = ''ZIP''"
| "SzFormat_name TAR = ''TAR''"
| "SzFormat_name GZIP = ''GZIP''"
| "SzFormat_name BZIP2 = ''BZIP2''"
| "SzFormat_name XZ = ''XZ''"
| "SzFormat_name RAR = ''RAR''"
| "SzFormat_name CAB = ''CAB''"
| "SzFormat_name ISO = ''ISO''"
| "SzFormat_name WIM = ''WIM''"

definition SzFormat_members :: "(string \<times> int) list" where
  "SzFormat_members =
     map (\<lambda>m. (SzFormat_name m, SzFormat_value m))
       [SEVEN_Z, ZIP, TAR, GZIP, BZIP2, XZ, RAR, CAB, ISO, WIM]"

datatype SzCompressionLevel = NONE | FAST | NORMAL | MAXIMUM | ULTRA

fun SzCompressionLevel_value :: "SzCompressionLevel \<Rightarrow> int" where
  "SzCompressionLevel_value NONE = 0"
| "SzCompressionLevel_value FAST = 1"
| "SzCompressionLevel_value NORMAL = 2"
| "SzCompressionLevel_value MAXIMUM = 3"
| "SzCompressionLevel_value ULTRA = 4"

definition SzCompressionLevel_members :: "(string \<times> int) list" where
  "SzCompressionLevel_members =
     [(''NONE'', SzCompressionLevel_value NONE), (''FAST'', SzCompressionLevel_value FAST),
      (''NORMAL'', SzCompressionLevel_value NORMAL),
      (''MAXIMUM'', SzCompressionLevel_value MAXIMUM),
      (''ULTRA'', SzCompressionLevel_value ULTRA)]"

subsection \<open>Enumerations of sevenzip_ffi.py\<close>

text \<open>The second module declares classes of the same names; here they are given by
  their members, in the order of the class bodies.\<close>

definition ffi_SzResult_members :: "(string \<times> int) list" where
  "ffi_SzResult_members =
     [(''OK'', 0), (''FAIL'', 1), (''OUT_OF_MEMORY'', 2), (''INVALID_ARGUMENT'', 3),
      (''FILE_NOT_FOUND'', 4), (''ACCESS_DENIED'', 5), (''UNSUPPORTED_FORMAT'', 6),
      (''CORRUPTED_ARCHIVE'', 7), (''WRONG_PASSWORD'', 8), (''NOT_IMPLEMENTED'', 9),
      (''ABORTED'', 10), (''DISK_FULL'', 11), (''INTERNAL_ERROR'', 12), (''BUSY'', 13),
      (''INVALID_STATE'', 14)]"

definition ffi_SzFormat_members :: "(string \<times> int) list" where
  "ffi_SzFormat_members =
     [(''AUTO'', 0), (''SEVENZIP'', 1), (''ZIP'', 2), (''TAR'', 3), (''GZIP'', 4),
      (''BZIP2'', 5), (''XZ'', 6)]"

text \<open>The value an enumeration gives to a name (\<open>None\<close>: no such member), and the name
  it gives to a value.\<close>

definition enum_value :: "(string \<times> int) list \<Rightarrow> string \<Rightarrow> int option" where
  "enum_value members n = map_of members n"

definition enum_name :: "(string \<times> int) list \<Rightarrow> int \<Rightarrow> string option" where
  "enum_name members v = map_option fst (find (\<lambda>m. snd m = v) members)"

subsection \<open>Strings, numbers and exceptions\<close>

text \<open>\<open>str.lower()\<close>, on ASCII text: the letters \<open>A\<close> to \<open>Z\<close> move to \<open>a\<close> to \<open>z\<close>
  and every other character stays. (No character outside ASCII is lowered by Python to
  an ASCII letter that occurs in a format or level name of the module.)\<close>

definition lower_char :: "char \<Rightarrow> char" where
  "lower_char c =
     (case map_of (zip ''ABCDEFGHIJKLMNOPQRSTUVWXYZ'' ''abcdefghijklmnopqrstuvwxyz'') c of
        None \<Rightarrow> c
      | Some l \<Rightarrow> l)"

definition lower :: "string \<Rightarrow> string" where
  "lower s = map lower_char s"

text \<open>\<open>str(n)\<close> of an integer, as an f-string prints it.\<close>

fun str_nat :: "nat \<Rightarrow> string" where
  "str_nat n =
     (if n < 10 then [''0123456789'' ! n]
      else str_nat (n div 10) @ [''0123456789'' ! (n mod 10)])"

declare str_nat.simps [simp del]

definition str_int :: "int \<Rightarrow> string" where
  "str_int i = (if i < 0 then CHR ''-'' # str_nat (nat (- i)) else str_nat (nat i))"

text \<open>A Python number: an \<open>int\<close>, or a \<open>float\<close> (given by the rational it denotes).\<close>

datatype pynum = PyInt int | PyFloat rat

text \<open>The exceptions: the module's \<open>SevenZipError(message, code)\<close>, the
  \<open>ValueError\<close> of an enumeration called on a value it has no member for,
  \<open>ZeroDivisionError\<close>, the \<open>UnicodeDecodeError\<close> of \<open>decode\<close>, and \<open>HostError\<close> for
  whatever the interpreter or the file system raises (\<open>OSError\<close>, \<open>MemoryError\<close>).\<close>

datatype exn =
    SevenZipError string SzResult
  | ValueError
  | ZeroDivisionError
  | UnicodeDecodeError
  | HostError string

text \<open>\<open>b.decode('utf-8')\<close>. The bytes are well-formed when each character is one
  byte below 128, or a lead byte with its continuation bytes, in the ranges of the
  Unicode standard: no overlong form, no surrogate, nothing above U+10FFFF.\<close>

definition continuation :: "nat \<Rightarrow> bool" where
  "continuation b = (128 \<le> b \<and> b \<le> 191)"

fun utf8_valid :: "nat list \<Rightarrow> bool" where
  "utf8_valid [] = True"
| "utf8_valid (b # bs) =
     (if b < 128 then utf8_valid bs
      else if 194 \<le> b \<and> b \<le> 223 then
        (case bs of c # r \<Rightarrow> continuation c \<and> utf8_valid r | _ \<Rightarrow> False)
      else if b = 224 then
        (case bs of
           c # d # r \<Rightarrow> 160 \<le> c \<and> c \<le> 191 \<and> continuation d \<and> utf8_valid r
         | _ \<Rightarrow> False)
      else if (225 \<le> b \<and> b \<le> 236) \<or> b = 238 \<or> b = 239 then
        (case bs of
           c # d # r \<Rightarrow> continuation c \<and> continuation d \<and> utf8_valid r
         | _ \<Rightarrow> False)
      else if b = 237 then
        (case bs of
           c # d # r \<Rightarrow> 128 \<le> c \<and> c \<le> 159 \<and> continuation d \<and> utf8_valid r
         | _ \<Rightarrow> False)
      else if b = 240 then
        (case bs of
           c # d # e # r \<Rightarrow>
             144 \<le> c \<and> c \<le> 191 \<and> continuation d \<and> continuation e \<and> utf8_valid r
         | _ \<Rightarrow> False)
      else if 241 \<le> b \<and> b \<le> 243 then
        (case bs of
           c # d # e # r \<Rightarrow>
             continuation c \<and> continuation d \<and> continuation e \<and> utf8_valid r
         | _ \<Rightarrow> False)
      else if b = 244 then
        (case bs of
           c # d # e # r \<Rightarrow>
             128 \<le> c \<and> c \<le> 143 \<and> continuation d \<and> continuation e \<and> utf8_valid r
         | _ \<Rightarrow> False)
      else False)"

definition decode :: "bytes \<Rightarrow> exn + string" where
  "decode b = (if utf8_valid (map of_char b) then Inr b else Inl UnicodeDecodeError)"

text \<open>\<open>a / b\<close> on two \<open>int\<close>s: the \<open>float\<close> nearest to the quotient, where
  \<open>to_float\<close> is the rounding of the platform's doubles.\<close>

definition truediv :: "(rat \<Rightarrow> rat) \<Rightarrow> int \<Rightarrow> int \<Rightarrow> exn + pynum" where
  "truediv to_float a b =
     (if b = 0 then Inl ZeroDivisionError
      else Inr (PyFloat (to_float (of_int a / of_int b))))"

subsection \<open>sevenzip_ffi.py: the archive information\<close>

text \<open>The \<open>ctypes\<close> structure \<open>_SzArchiveInfo\<close>; \<open>c_int\<close> is read signed, the other
  fields unsigned.\<close>

record ffi_SzArchiveInfo =
  format :: "32 word"
  item_count :: "64 word"
  total_size :: "64 word"
  packed_size :: "64 word"
  is_solid :: "32 word"
  is_multi_volume :: "32 word"
  has_encrypted_headers :: "32 word"

text \<open>The dictionary \<open>SevenZip.get_archive_info\<close> returns.\<close>

record archive_info =
  info_format :: string
  info_item_count :: int
  info_total_size :: int
  info_packed_size :: int
  info_compression_ratio :: pynum
  info_is_solid :: bool
  info_is_multi_volume :: bool
  info_has_encrypted_headers :: bool

text \<open>The entry \<open>'compression_ratio'\<close> of that dictionary:
  \<^verbatim>\<open>info.packed_size / info.total_size if info.total_size > 0 else 0\<close>.\<close>

definition compression_ratio :: "(rat \<Rightarrow> rat) \<Rightarrow> ffi_SzArchiveInfo \<Rightarrow> exn + pynum" where
  "compression_ratio to_float info =
     (if uint (total_size info) > 0
      then truediv to_float (uint (packed_size info)) (uint (total_size info))
      else Inr (PyInt 0))"

text \<open>\<open>SevenZip.get_archive_info\<close>, from the structure \<open>sz_archive_get_info\<close> filled:
  the \<open>return\<close> statement of the function, its entries evaluated in the order they are
  written. (Before it the function opens the archive and reads the structure, and a
  \<open>finally\<close> clause closes the archive.)\<close>

definition get_archive_info_dict ::
  "(rat \<Rightarrow> rat) \<Rightarrow> ffi_SzArchiveInfo \<Rightarrow> exn + archive_info" where
  "get_archive_info_dict to_float info =
     (case enum_name ffi_SzFormat_members (sint (format info)) of
        None \<Rightarrow> Inl ValueError
      | Some name \<Rightarrow>
          (case compression_ratio to_float info of
             Inl e \<Rightarrow> Inl e
           | Inr ratio \<Rightarrow>
               Inr \<lparr> info_format = lower name,
                     info_item_count = uint (item_count info),
                     info_total_size = uint (total_size info),
                     info_packed_size = uint (packed_size info),
                     info_compression_ratio = ratio,
                     info_is_solid = (is_solid info \<noteq> 0),
                     info_is_multi_volume = (is_multi_volume info \<noteq> 0),
                     info_has_encrypted_headers = (has_encrypted_headers info \<noteq> 0) \<rparr>))"

subsection \<open>Paths\<close>

text \<open>
  \<open>pathlib\<close>'s paths, in the POSIX flavour: a root (\<open>''\<close>, \<open>'/'\<close> or \<open>'//'\<close>) and the
  components, from which pathlib drops the empty ones and \<open>'.'\<close>.
\<close>

datatype path = Path (path_root: string) (path_parts: "string list")

fun split_slash :: "string \<Rightarrow> string list" where
  "split_slash [] = [[]]"
| "split_slash (c # cs) =
     (if c = CHR ''/'' then [] # split_slash cs
      else (case split_slash cs of [] \<Rightarrow> [[c]] | x # xs \<Rightarrow> (c # x) # xs))"

fun join_slash :: "string list \<Rightarrow> string" where
  "join_slash [] = []"
| "join_slash [x] = x"
| "join_slash (x # y # ys) = x @ CHR ''/'' # join_slash (y # ys)"

definition splitroot :: "string \<Rightarrow> string \<times> string" where
  "splitroot p =
     (if take 1 p \<noteq> ''/'' then ([], p)
      else if take 1 (drop 1 p) \<noteq> ''/'' \<or> take 1 (drop 2 p) = ''/'' then (''/'', drop 1 p)
      else (''//'', drop 2 p))"

text \<open>\<open>Path(s)\<close> of a \<open>str\<close>.\<close>

definition Path_of_str :: "string \<Rightarrow> path" where
  "Path_of_str s =
     (case splitroot s of
        (r, rel) \<Rightarrow> Path r (filter (\<lambda>x. x \<noteq> [] \<and> x \<noteq> ''.'') (split_slash rel)))"

text \<open>\<open>str(p)\<close>, \<open>p.name\<close>, \<open>p.parent\<close> and \<open>p / s\<close>.\<close>

definition path_str :: "path \<Rightarrow> string" where
  "path_str p =
     (let s = path_root p @ join_slash (path_parts p) in if s = [] then ''.'' else s)"

definition path_name :: "path \<Rightarrow> string" where
  "path_name p = (if path_parts p = [] then [] else last (path_parts p))"



text \<open>An argument of type \<open>Union[str, Path]\<close>, with \<open>str(x)\<close> and \<open>Path(x)\<close>.\<close>

datatype pathlike = Str string | PathObj path

fun str_of :: "pathlike \<Rightarrow> string" where
  "str_of (Str s) = s"
| "str_of (PathObj p) = path_str p"

fun Path_of :: "pathlike \<Rightarrow> path" where
  "Path_of (Str s) = Path_of_str s"
| "Path_of (PathObj p) = p"

subsection \<open>The native library, seen from the wrapper\<close>

text \<open>
  A handle is a \<open>c_void_p\<close>: an address, 0 for \<open>NULL\<close>. The attribute \<open>_handle\<close> of a
  wrapper object is \<open>None\<close> or such a pointer, and in a condition it counts as true when
  it is a pointer other than \<open>NULL\<close>.
\<close>

type_synonym handle = nat

definition truthy :: "handle option \<Rightarrow> bool" where
  "truthy h = (case h of None \<Rightarrow> False | Some p \<Rightarrow> p \<noteq> 0)"

text \<open>The address \<open>ctypes\<close> passes for the attribute (\<open>None\<close> is passed as \<open>NULL\<close>).\<close>

definition address :: "handle option \<Rightarrow> handle" where
  "address h = (case h of None \<Rightarrow> 0 | Some p \<Rightarrow> p)"

text \<open>The structure \<open>SzItemInfo\<close>; \<open>path\<close> is a \<open>c_char_p\<close>, read as \<open>None\<close> when it
  is \<open>NULL\<close>.\<close>

record SzItemInfo =
  c_index :: "64 word"
  c_path :: "bytes option"
  c_size :: "64 word"
  c_packed_size :: "64 word"
  c_crc :: "32 word"
  c_has_crc :: "32 word"
  c_creation_time :: "64 word"
  c_modification_time :: "64 word"
  c_is_directory :: "32 word"
  c_is_encrypted :: "32 word"

text \<open>
  Everything the wrapper does outside the interpreter is an event: a call of a function
  of the native library with its arguments, the copy \<open>ctypes.string_at\<close> takes of
  native memory, and the two file system operations of \<open>extract_archive\<close>
  (\<open>mkdir(parents=True, exist_ok=True)\<close> and \<open>write_bytes\<close>). A run of the wrapper
  extends the list of the events so far.
\<close>

datatype event =
    Call_sz_get_last_error_message
  | Call_sz_archive_open bytes
  | Call_sz_archive_close handle
  | Call_sz_archive_get_item_count handle
  | Call_sz_archive_get_item_info handle "64 word"
  | Call_sz_archive_extract_to_memory handle "64 word"
  | Call_sz_memory_free handle
  | Call_sz_writer_create bytes int
  | Call_sz_writer_add_file handle bytes bytes
  | Call_sz_writer_add_directory handle bytes int
  | Call_sz_writer_add_memory handle bytes nat bytes
  | Call_sz_writer_set_password handle bytes
  | Call_sz_writer_set_compression_level handle int
  | Call_sz_writer_finalize handle
  | Call_sz_writer_cancel handle
  | Copy_string_at handle nat
  | Fs_mkdir path
  | Fs_write_bytes path bytes

text \<open>
  The native library is not part of the wrapper: what its functions return is a
  parameter of the model. Each function answers from the events so far and its
  arguments: the result code (a \<open>c_int\<close>) and what it writes through its \<open>byref\<close>
  arguments. The functions \<open>sz_archive_close\<close>, \<open>sz_writer_cancel\<close> and
  \<open>sz_memory_free\<close> return nothing. The same record holds what the interpreter and
  the file system answer: \<open>ctypes.string_at\<close>, \<open>Path.is_dir\<close>, \<open>Path.mkdir\<close> and
  \<open>Path.write_bytes\<close> (\<open>None\<close>: no exception).
\<close>

record env =
  sz_get_last_error_message :: "event list \<Rightarrow> bytes option"
  sz_archive_open :: "event list \<Rightarrow> bytes \<Rightarrow> int \<times> handle"
  sz_archive_get_item_count :: "event list \<Rightarrow> handle \<Rightarrow> int \<times> 64 word"
  sz_archive_get_item_info :: "event list \<Rightarrow> handle \<Rightarrow> 64 word \<Rightarrow> int \<times> SzItemInfo"
  sz_archive_extract_to_memory ::
    "event list \<Rightarrow> handle \<Rightarrow> 64 word \<Rightarrow> int \<times> handle \<times> 64 word"
  sz_writer_create :: "event list \<Rightarrow> bytes \<Rightarrow> int \<Rightarrow> int \<times> handle"
  sz_writer_add_file :: "event list \<Rightarrow> handle \<Rightarrow> bytes \<Rightarrow> bytes \<Rightarrow> int"
  sz_writer_add_directory :: "event list \<Rightarrow> handle \<Rightarrow> bytes \<Rightarrow> int \<Rightarrow> int"
  sz_writer_add_memory :: "event list \<Rightarrow> handle \<Rightarrow> bytes \<Rightarrow> nat \<Rightarrow> bytes \<Rightarrow> int"
  sz_writer_set_password :: "event list \<Rightarrow> handle \<Rightarrow> bytes \<Rightarrow> int"
  sz_writer_set_compression_level :: "event list \<Rightarrow> handle \<Rightarrow> int \<Rightarrow> int"
  sz_writer_finalize :: "event list \<Rightarrow> handle \<Rightarrow> int"
  string_at :: "event list \<Rightarrow> handle \<Rightarrow> nat \<Rightarrow> exn + bytes"
  is_dir :: "event list \<Rightarrow> path \<Rightarrow> bool"
  mkdir :: "event list \<Rightarrow> path \<Rightarrow> exn option"
  write_bytes :: "event list \<Rightarrow> path \<Rightarrow> bytes \<Rightarrow> exn option"

subsection \<open>sevenzip.py: errors\<close>

text \<open>\<open>_check_result(result, operation)\<close>. A message of the library that does not
  decode raises \<open>UnicodeDecodeError\<close>. The arguments of \<open>SevenZipError\<close> are
  evaluated before the exception is built, so a result code that \<open>SzResult\<close> has no
  member for raises the enumeration's \<open>ValueError\<close> instead.\<close>

definition check_result ::
  "env \<Rightarrow> int \<Rightarrow> string \<Rightarrow> event list \<Rightarrow> (exn + unit) \<times> event list" where
  "check_result lib result operation tr =
     (if result \<noteq> SzResult_value OK then
        let m = sz_get_last_error_message lib tr;
            tr1 = tr @ [Call_sz_get_last_error_message];
            error_msg = (case m of
                           None \<Rightarrow> Inr (operation @ '' failed'')
                         | Some b \<Rightarrow> if b \<noteq> [] then decode b
                                     else Inr (operation @ '' failed''))
        in (case error_msg of
              Inl e \<Rightarrow> (Inl e, tr1)
            | Inr msg \<Rightarrow>
                (case SzResult_of_int result of
                   None \<Rightarrow> (Inl ValueError, tr1)
                 | Some c \<Rightarrow>
                     (Inl (SevenZipError (msg @ '' (code='' @ str_int result @ '')'') c),
                      tr1)))
      else (Inr (), tr))"

subsection \<open>sevenzip.py: Item\<close>

record Item =
  item_index :: int
  item_path :: string
  item_size :: int
  item_packed_size :: int
  item_compressed_size :: int
  item_is_directory :: bool
  item_is_encrypted :: bool
  item_crc :: "int option"
  item_has_crc :: bool
  item_creation_time :: int
  item_modification_time :: int

text \<open>\<open>Item(info)\<close>. Only the decoding of the path can raise:
  \<^verbatim>\<open>info.path.decode('utf-8') if info.path else ""\<close>.\<close>

definition Item_init :: "SzItemInfo \<Rightarrow> exn + Item" where
  "Item_init info =
     (case (case c_path info of
              None \<Rightarrow> Inr []
            | Some b \<Rightarrow> if b \<noteq> [] then decode b else Inr []) of
        Inl e \<Rightarrow> Inl e
      | Inr path \<Rightarrow>
          Inr \<lparr> item_index = uint (c_index info),
                item_path = path,
                item_size = uint (c_size info),
                item_packed_size = uint (c_packed_size info),
                item_compressed_size = uint (c_packed_size info),
                item_is_directory = (c_is_directory info \<noteq> 0),
                item_is_encrypted = (c_is_encrypted info \<noteq> 0),
                item_crc = (if c_has_crc info \<noteq> 0 then Some (uint (c_crc info)) else None),
                item_has_crc = (c_has_crc info \<noteq> 0),
                item_creation_time = sint (c_creation_time info),
                item_modification_time = sint (c_modification_time info) \<rparr>)"

subsection \<open>sevenzip.py: Archive\<close>

text \<open>
  A method takes the object and the events so far and returns its result (\<open>Inl\<close>: the
  exception it raises) with the events then; a method that assigns to an attribute
  returns the object as well. An index argument is a Python \<open>int\<close>, which \<open>ctypes\<close>
  converts to \<open>c_size_t\<close> without a range check.
\<close>

record Archive =
  Archive_handle :: "handle option"



definition Archive_close :: "Archive \<Rightarrow> event list \<Rightarrow> Archive \<times> event list" where
  "Archive_close self tr =
     (if truthy (Archive_handle self)
      then (self\<lparr> Archive_handle := None \<rparr>,
            tr @ [Call_sz_archive_close (address (Archive_handle self))])
      else (self, tr))"

definition Archive_item_count ::
  "env \<Rightarrow> Archive \<Rightarrow> event list \<Rightarrow> (exn + int) \<times> event list" where
  "Archive_item_count lib self tr =
     (if \<not> truthy (Archive_handle self)
      then (Inl (SevenZipError ''archive not open'' FAIL), tr)
      else
        let h = address (Archive_handle self);
            (result, count) = sz_archive_get_item_count lib tr h;
            tr1 = tr @ [Call_sz_archive_get_item_count h]
        in (case check_result lib result ''get item count'' tr1 of
              (Inl e, tr2) \<Rightarrow> (Inl e, tr2)
            | (Inr _, tr2) \<Rightarrow> (Inr (uint count), tr2)))"

definition Archive_get_item_info ::
  "env \<Rightarrow> Archive \<Rightarrow> int \<Rightarrow> event list \<Rightarrow> (exn + Item) \<times> event list" where
  "Archive_get_item_info lib self index tr =
     (if \<not> truthy (Archive_handle self)
      then (Inl (SevenZipError ''archive not open'' FAIL), tr)
      else
        let h = address (Archive_handle self);
            (result, info) = sz_archive_get_item_info lib tr h (word_of_int index);
            tr1 = tr @ [Call_sz_archive_get_item_info h (word_of_int index)]
        in (case check_result lib result ''get item info'' tr1 of
              (Inl e, tr2) \<Rightarrow> (Inl e, tr2)
            | (Inr _, tr2) \<Rightarrow> (Item_init info, tr2)))"

text \<open>In \<open>extract_to_memory\<close> the \<open>finally\<close> clause frees the native buffer whether
  \<open>string_at\<close> returned the copy or raised.\<close>

definition Archive_extract_to_memory ::
  "env \<Rightarrow> Archive \<Rightarrow> int \<Rightarrow> event list \<Rightarrow> (exn + bytes) \<times> event list" where
  "Archive_extract_to_memory lib self index tr =
     (if \<not> truthy (Archive_handle self)
      then (Inl (SevenZipError ''archive not open'' FAIL), tr)
      else
        let h = address (Archive_handle self);
            (result, data_ptr, size) =
               sz_archive_extract_to_memory lib tr h (word_of_int index);
            tr1 = tr @ [Call_sz_archive_extract_to_memory h (word_of_int index)]
        in (case check_result lib result ''extract to memory'' tr1 of
              (Inl e, tr2) \<Rightarrow> (Inl e, tr2)
            | (Inr _, tr2) \<Rightarrow>
                let data = string_at lib tr2 data_ptr (unat size);
                    tr3 = tr2 @ [Copy_string_at data_ptr (unat size)]
                in (data, tr3 @ [Call_sz_memory_free data_ptr])))"


subsection \<open>sevenzip.py: Writer\<close>

record Writer =
  Writer_handle :: "handle option"
  Writer_finalized :: bool

definition Writer_init :: Writer where
  "Writer_init = \<lparr> Writer_handle = None, Writer_finalized = False \<rparr>"

definition format_map :: "(string \<times> SzFormat) list" where
  "format_map =
     [(''7z'', SEVEN_Z), (''sevenzip'', SEVEN_Z), (''zip'', ZIP), (''tar'', TAR),
      (''gzip'', GZIP), (''gz'', GZIP), (''bzip2'', BZIP2), (''bz2'', BZIP2), (''xz'', XZ)]"

definition level_map :: "(string \<times> SzCompressionLevel) list" where
  "level_map =
     [(''none'', NONE), (''fast'', FAST), (''normal'', NORMAL), (''maximum'', MAXIMUM),
      (''ultra'', ULTRA)]"

text \<open>\<open>d.get(key, default)\<close> on a dictionary given by its items.\<close>

definition dict_get :: "('k \<times> 'v) list \<Rightarrow> 'k \<Rightarrow> 'v \<Rightarrow> 'v" where
  "dict_get d k dflt = (case map_of d k of None \<Rightarrow> dflt | Some v \<Rightarrow> v)"

definition Writer_create ::
  "env \<Rightarrow> pathlike \<Rightarrow> string + SzFormat \<Rightarrow> event list \<Rightarrow> (exn + Writer) \<times> event list" where
  "Writer_create lib path fmt tr =
     (let writer = Writer_init;
          path_bytes = str_of path;
          fmt1 = (case fmt of
                    Inl s \<Rightarrow> dict_get format_map (lower s) SEVEN_Z
                  | Inr f \<Rightarrow> f);
          (result, handle) = sz_writer_create lib tr path_bytes (SzFormat_value fmt1);
          tr1 = tr @ [Call_sz_writer_create path_bytes (SzFormat_value fmt1)]
      in (case check_result lib result ''create archive writer'' tr1 of
            (Inl e, tr2) \<Rightarrow> (Inl e, tr2)
          | (Inr _, tr2) \<Rightarrow> (Inr (writer\<lparr> Writer_handle := Some handle \<rparr>), tr2)))"

definition Writer_add_file ::
  "env \<Rightarrow> Writer \<Rightarrow> pathlike \<Rightarrow> string option \<Rightarrow> event list \<Rightarrow> (exn + unit) \<times> event list"
  where
  "Writer_add_file lib self file_path archive_path tr =
     (if \<not> truthy (Writer_handle self)
      then (Inl (SevenZipError ''writer not initialized'' FAIL), tr)
      else if Writer_finalized self
      then (Inl (SevenZipError ''archive is finalized, cannot add more files'' FAIL), tr)
      else
        let h = address (Writer_handle self);
            file_path_bytes = str_of file_path;
            archive_path_bytes =
              (case archive_path of
                 None \<Rightarrow> path_name (Path_of file_path)
               | Some s \<Rightarrow> if s \<noteq> [] then s else path_name (Path_of file_path));
            result = sz_writer_add_file lib tr h file_path_bytes archive_path_bytes;
            tr1 = tr @ [Call_sz_writer_add_file h file_path_bytes archive_path_bytes]
        in check_result lib result ''add file'' tr1)"

definition Writer_add_directory ::
  "env \<Rightarrow> Writer \<Rightarrow> pathlike \<Rightarrow> bool \<Rightarrow> event list \<Rightarrow> (exn + unit) \<times> event list" where
  "Writer_add_directory lib self dir_path recursive tr =
     (if \<not> truthy (Writer_handle self)
      then (Inl (SevenZipError ''writer not initialized'' FAIL), tr)
      else if Writer_finalized self
      then (Inl (SevenZipError ''archive is finalized, cannot add more directories'' FAIL), tr)
      else
        let h = address (Writer_handle self);
            dir_path_bytes = str_of dir_path;
            result = sz_writer_add_directory lib tr h dir_path_bytes (if recursive then 1 else 0);
            tr1 = tr @ [Call_sz_writer_add_directory h dir_path_bytes (if recursive then 1 else 0)]
        in check_result lib result ''add directory'' tr1)"

definition Writer_add_memory ::
  "env \<Rightarrow> Writer \<Rightarrow> bytes \<Rightarrow> string \<Rightarrow> event list \<Rightarrow> (exn + unit) \<times> event list" where
  "Writer_add_memory lib self data archive_path tr =
     (if \<not> truthy (Writer_handle self)
      then (Inl (SevenZipError ''writer not initialized'' FAIL), tr)
      else if Writer_finalized self
      then (Inl (SevenZipError ''archive is finalized, cannot add more data'' FAIL), tr)
      else
        let h = address (Writer_handle self);
            archive_path_bytes = archive_path;
            result = sz_writer_add_memory lib tr h data (length data) archive_path_bytes;
            tr1 = tr @ [Call_sz_writer_add_memory h data (length data) archive_path_bytes]
        in check_result lib result ''add memory data'' tr1)"

definition Writer_set_password ::
  "env \<Rightarrow> Writer \<Rightarrow> string \<Rightarrow> event list \<Rightarrow> (exn + unit) \<times> event list" where
  "Writer_set_password lib self password tr =
     (if \<not> truthy (Writer_handle self)
      then (Inl (SevenZipError ''writer not initialized'' FAIL), tr)
      else if Writer_finalized self
      then (Inl (SevenZipError ''archive is finalized, cannot set password'' FAIL), tr)
      else
        let h = address (Writer_handle self);
            password_bytes = password;
            result = sz_writer_set_password lib tr h password_bytes;
            tr1 = tr @ [Call_sz_writer_set_password h password_bytes]
        in check_result lib result ''set password'' tr1)"

definition Writer_set_compression_level ::
  "env \<Rightarrow> Writer \<Rightarrow> string + SzCompressionLevel \<Rightarrow> event list \<Rightarrow> (exn + unit) \<times> event list"
  where
  "Writer_set_compression_level lib self level tr =
     (if \<not> truthy (Writer_handle self)
      then (Inl (SevenZipError ''writer not initialized'' FAIL), tr)
      else if Writer_finalized self
      then (Inl (SevenZipError ''archive is finalized, cannot set compression level'' FAIL), tr)
      else
        let h = address (Writer_handle self);
            level1 = (case level of
                        Inl s \<Rightarrow> dict_get level_map (lower s) NORMAL
                      | Inr l \<Rightarrow> l);
            result = sz_writer_set_compression_level lib tr h (SzCompressionLevel_value level1);
            tr1 = tr @ [Call_sz_writer_set_compression_level h (SzCompressionLevel_value level1)]
        in check_result lib result ''set compression level'' tr1)"

definition Writer_finalize ::
  "env \<Rightarrow> Writer \<Rightarrow> event list \<Rightarrow> (exn + unit) \<times> Writer \<times> event list" where
  "Writer_finalize lib self tr =
     (if \<not> truthy (Writer_handle self)
      then (Inl (SevenZipError ''writer not initialized'' FAIL), self, tr)
      else if Writer_finalized self
      then (Inr (), self, tr)
      else
        let h = address (Writer_handle self);
            result = sz_writer_finalize lib tr h;
            tr1 = tr @ [Call_sz_writer_finalize h]
        in (case check_result lib result ''finalize archive'' tr1 of
              (Inl e, tr2) \<Rightarrow> (Inl e, self, tr2)
            | (Inr _, tr2) \<Rightarrow> (Inr (), self\<lparr> Writer_finalized := True \<rparr>, tr2)))"

definition Writer_cancel :: "Writer \<Rightarrow> event list \<Rightarrow> Writer \<times> event list" where
  "Writer_cancel self tr =
     (if truthy (Writer_handle self)
      then (self\<lparr> Writer_handle := None, Writer_finalized := True \<rparr>,
            tr @ [Call_sz_writer_cancel (address (Writer_handle self))])
      else (self, tr))"

text \<open>\<open>Writer.__exit__(exc_type, ...)\<close>, where \<open>exc\<close> is the exception the body of
  the \<open>with\<close> statement raised, if any. It returns \<open>False\<close>.\<close>

definition Writer_exit ::
  "env \<Rightarrow> exn option \<Rightarrow> Writer \<Rightarrow> event list \<Rightarrow> (exn + bool) \<times> Writer \<times> event list" where
  "Writer_exit lib exc self tr =
     (case (case exc of
              None \<Rightarrow> Writer_finalize lib self tr
            | Some _ \<Rightarrow> (Inr (), self, tr)) of
        (Inl e, self1, tr1) \<Rightarrow> (Inl e, self1, tr1)
      | (Inr _, self1, tr1) \<Rightarrow>
          (case Writer_cancel self1 tr1 of (self2, tr2) \<Rightarrow> (Inr False, self2, tr2)))"

text \<open>\<open>with writer: body\<close>, as Python runs a \<open>with\<close> statement: the body, then
  \<open>__exit__\<close> with the exception of the body; an exception of \<open>__exit__\<close> replaces it,
  and a false result of \<open>__exit__\<close> lets it propagate.\<close>

definition with_Writer ::
  "env \<Rightarrow> Writer \<Rightarrow> (Writer \<Rightarrow> event list \<Rightarrow> (exn + unit) \<times> Writer \<times> event list)
     \<Rightarrow> event list \<Rightarrow> (exn + unit) \<times> Writer \<times> event list" where
  "with_Writer lib writer body tr =
     (case body writer tr of
        (Inl e, writer1, tr1) \<Rightarrow>
          (case Writer_exit lib (Some e) writer1 tr1 of
             (Inl e', writer2, tr2) \<Rightarrow> (Inl e', writer2, tr2)
           | (Inr suppress, writer2, tr2) \<Rightarrow>
               (if suppress then Inr () else Inl e, writer2, tr2))
      | (Inr _, writer1, tr1) \<Rightarrow>
          (case Writer_exit lib None writer1 tr1 of
             (Inl e', writer2, tr2) \<Rightarrow> (Inl e', writer2, tr2)
           | (Inr _, writer2, tr2) \<Rightarrow> (Inr (), writer2, tr2)))"

subsection \<open>sevenzip.py: the facades\<close>




text \<open>The loop of \<open>create_archive\<close> over the files, and the body of its \<open>with\<close>
  statement.\<close>

fun create_archive_loop ::
  "env \<Rightarrow> Writer \<Rightarrow> pathlike list \<Rightarrow> event list \<Rightarrow> (exn + unit) \<times> event list" where
  "create_archive_loop lib writer [] tr = (Inr (), tr)"
| "create_archive_loop lib writer (file_path # rest) tr =
     (let file_path1 = Path_of file_path in
      (case (if is_dir lib tr file_path1
             then Writer_add_directory lib writer (PathObj file_path1) True tr
             else Writer_add_file lib writer (PathObj file_path1) None tr) of
         (Inl e, tr1) \<Rightarrow> (Inl e, tr1)
       | (Inr _, tr1) \<Rightarrow> create_archive_loop lib writer rest tr1))"

definition create_archive_body ::
  "env \<Rightarrow> pathlike list \<Rightarrow> string option \<Rightarrow> string \<Rightarrow> Writer \<Rightarrow> event list
     \<Rightarrow> (exn + unit) \<times> Writer \<times> event list" where
  "create_archive_body lib files password level writer tr =
     (case Writer_set_compression_level lib writer (Inl level) tr of
        (Inl e, tr1) \<Rightarrow> (Inl e, writer, tr1)
      | (Inr _, tr1) \<Rightarrow>
          (case (case password of
                   None \<Rightarrow> (Inr (), tr1)
                 | Some p \<Rightarrow> if p \<noteq> [] then Writer_set_password lib writer p tr1
                             else (Inr (), tr1)) of
             (Inl e, tr2) \<Rightarrow> (Inl e, writer, tr2)
           | (Inr _, tr2) \<Rightarrow>
               (case create_archive_loop lib writer files tr2 of
                  (r, tr3) \<Rightarrow> (r, writer, tr3))))"

definition create_archive ::
  "env \<Rightarrow> pathlike \<Rightarrow> pathlike list \<Rightarrow> string \<Rightarrow> string option \<Rightarrow> string \<Rightarrow> event list
     \<Rightarrow> (exn + unit) \<times> event list" where
  "create_archive lib output_path files fmt password level tr =
     (case Writer_create lib output_path (Inl fmt) tr of
        (Inl e, tr1) \<Rightarrow> (Inl e, tr1)
      | (Inr writer, tr1) \<Rightarrow>
          (case with_Writer lib writer (create_archive_body lib files password level) tr1 of
             (r, writer1, tr2) \<Rightarrow> (r, tr2)))"

subsection \<open>Reading the events\<close>

text \<open>The events a run added to those it started from.\<close>

definition new_events :: "event list \<Rightarrow> event list \<Rightarrow> event list" where
  "new_events tr tr' = drop (length tr) tr'"

fun is_archive_close :: "event \<Rightarrow> bool" where
  "is_archive_close (Call_sz_archive_close h) = True"
| "is_archive_close _ = False"

fun is_writer_cancel :: "event \<Rightarrow> bool" where
  "is_writer_cancel (Call_sz_writer_cancel h) = True"
| "is_writer_cancel _ = False"

fun is_writer_finalize :: "event \<Rightarrow> bool" where
  "is_writer_finalize (Call_sz_writer_finalize h) = True"
| "is_writer_finalize _ = False"



text \<open>The bytes of the path of an entry (none for \<open>NULL\<close>), whether they decode, and
  whether the entry is a file. Where \<open>extract_archive\<close> writes an entry whose path
  decodes: \<open>output_dir / item.path\<close>.\<close>

definition info_path :: "SzItemInfo \<Rightarrow> bytes" where
  "info_path info = (case c_path info of None \<Rightarrow> [] | Some b \<Rightarrow> b)"

definition path_decodes :: "SzItemInfo \<Rightarrow> bool" where
  "path_decodes info = utf8_valid (map of_char (info_path info))"







text \<open>\<open>n\<close> calls of \<open>close\<close> on an archive, and \<open>n\<close> calls of \<open>cancel\<close> on a writer,
  one after the other.\<close>

fun close_times :: "nat \<Rightarrow> Archive \<Rightarrow> event list \<Rightarrow> Archive \<times> event list" where
  "close_times 0 archive tr = (archive, tr)"
| "close_times (Suc n) archive tr =
     (case Archive_close archive tr of (archive1, tr1) \<Rightarrow> close_times n archive1 tr1)"

fun cancel_times :: "nat \<Rightarrow> Writer \<Rightarrow> event list \<Rightarrow> Writer \<times> event list" where
  "cancel_times 0 writer tr = (writer, tr)"
| "cancel_times (Suc n) writer tr =
     (case Writer_cancel writer tr of (writer1, tr1) \<Rightarrow> cancel_times n writer1 tr1)"

text \<open>An exception is an \<open>InvalidState\<close> error when it is a \<open>SevenZipError\<close> whose code
  is the member \<open>INVALID_STATE\<close> of the result enumeration.\<close>

definition is_InvalidState :: "exn \<Rightarrow> bool" where
  "is_InvalidState e =
     (case e of SevenZipError m c \<Rightarrow> SzResult_name c = ''INVALID_STATE'' | _ \<Rightarrow> False)"

subsection \<open>A library to run the wrapper on\<close>

text \<open>
  For the concrete runs below: an archive of three entries (a file, a directory and a
  file in it) and a native library in which every call succeeds. The handle of a
  reader is 7, that of a writer is 9, and the buffer of the entry \<open>i\<close> is at
  \<open>100 + i\<close>.
\<close>

definition demo_infos :: "SzItemInfo list" where
  "demo_infos =
     [\<lparr> c_index = 0, c_path = Some ''a.txt'', c_size = 2, c_packed_size = 2, c_crc = 0,
        c_has_crc = 0, c_creation_time = 0, c_modification_time = 0, c_is_directory = 0,
        c_is_encrypted = 0 \<rparr>,
      \<lparr> c_index = 1, c_path = Some ''sub'', c_size = 0, c_packed_size = 0, c_crc = 0,
        c_has_crc = 0, c_creation_time = 0, c_modification_time = 0, c_is_directory = 1,
        c_is_encrypted = 0 \<rparr>,
      \<lparr> c_index = 2, c_path = Some ''sub/b.txt'', c_size = 3, c_packed_size = 3, c_crc = 0,
        c_has_crc = 0, c_creation_time = 0, c_modification_time = 0, c_is_directory = 0,
        c_is_encrypted = 0 \<rparr>]"

definition demo_content :: "64 word \<Rightarrow> bytes" where
  "demo_content i = (if i = 0 then ''hi'' else if i = 2 then ''abc'' else [])"

definition lib_ok :: env where
  "lib_ok =
     \<lparr> sz_get_last_error_message = (\<lambda>tr. None),
       sz_archive_open = (\<lambda>tr p. (0, 7)),
       sz_archive_get_item_count = (\<lambda>tr h. (0, 3)),
       sz_archive_get_item_info = (\<lambda>tr h i. (0, demo_infos ! unat i)),
       sz_archive_extract_to_memory =
         (\<lambda>tr h i. (0, 100 + unat i, of_nat (length (demo_content i)))),
       sz_writer_create = (\<lambda>tr p f. (0, 9)),
       sz_writer_add_file = (\<lambda>tr h p a. 0),
       sz_writer_add_directory = (\<lambda>tr h p r. 0),
       sz_writer_add_memory = (\<lambda>tr h d n a. 0),
       sz_writer_set_password = (\<lambda>tr h p. 0),
       sz_writer_set_compression_level = (\<lambda>tr h l. 0),
       sz_writer_finalize = (\<lambda>tr h. 0),
       string_at = (\<lambda>tr p n. Inr (demo_content (of_nat (p - 100)))),
       is_dir = (\<lambda>tr p. False),
       mkdir = (\<lambda>tr p. None),
       write_bytes = (\<lambda>tr p d. None) \<rparr>"



text \<open>The same library, but adding a file fails with the code 3 and a message.\<close>

definition lib_add_fails :: env where
  "lib_add_fails =
     lib_ok \<lparr> sz_get_last_error_message := (\<lambda>tr. Some ''no such file''),
              sz_writer_add_file := (\<lambda>tr h p a. 3) \<rparr>"

section \<open>The two modules number their enumerations differently\<close>

lemma SzResult_members_eq:
  "SzResult_members =
     [(''OK'', 0), (''FAIL'', 1), (''OUT_OF_MEMORY'', 2), (''FILE_NOT_FOUND'', 3),
      (''ACCESS_DENIED'', 4), (''INVALID_ARGUMENT'', 5), (''UNSUPPORTED_FORMAT'', 6),
      (''CORRUPTED_ARCHIVE'', 7), (''WRONG_PASSWORD'', 8), (''UNKNOWN_ERROR'', 9),
      (''INDEX_OUT_OF_RANGE'', 10), (''BUFFER_TOO_SMALL'', 11),
      (''OPERATION_CANCELLED'', 12), (''WRITE_ERROR'', 13), (''READ_ERROR'', 14),
      (''NOT_IMPLEMENTED'', 15), (''DISK_FULL'', 16)]"
  by (simp add: SzResult_members_def SzResult_all_def)

lemma SzFormat_members_eq:
  "SzFormat_members =
     [(''SEVEN_Z'', 0), (''ZIP'', 1), (''TAR'', 2), (''GZIP'', 3), (''BZIP2'', 4),
      (''XZ'', 5), (''RAR'', 6), (''CAB'', 7), (''ISO'', 8), (''WIM'', 9)]"
  by (simp add: SzFormat_members_def)

lemma result_INVALID_ARGUMENT:
  "enum_value SzResult_members ''INVALID_ARGUMENT'' = Some 5"
  "enum_value ffi_SzResult_members ''INVALID_ARGUMENT'' = Some 3"
  by (simp_all add: enum_value_def SzResult_members_eq ffi_SzResult_members_def)

lemma format_seven_z:
  "enum_value SzFormat_members ''SEVEN_Z'' = Some 0"
  "enum_value ffi_SzFormat_members ''SEVENZIP'' = Some 1"
  "enum_value SzFormat_members ''SEVENZIP'' = None"
  "enum_value ffi_SzFormat_members ''SEVEN_Z'' = None"
  by (simp_all add: enum_value_def SzFormat_members_eq ffi_SzFormat_members_def)

lemma format_ZIP:
  "enum_value SzFormat_members ''ZIP'' = Some 1"
  "enum_value ffi_SzFormat_members ''ZIP'' = Some 2"
  by (simp_all add: enum_value_def SzFormat_members_eq ffi_SzFormat_members_def)

lemma format_value_0:
  "enum_name SzFormat_members 0 = Some ''SEVEN_Z''"
  "enum_name ffi_SzFormat_members 0 = Some ''AUTO''"
  by (simp_all add: enum_name_def SzFormat_members_eq ffi_SzFormat_members_def)

text \<open>
  Claim C4. The enumerations \<open>SzResult\<close> and \<open>SzFormat\<close> of sevenzip.py and those of
  sevenzip_ffi.py give different values to the same names: \<open>INVALID_ARGUMENT\<close> is 5
  in the first and 3 in the second, \<open>ZIP\<close> is 1 in the first and 2 in the second; the
  7z format is \<open>SEVEN_Z = 0\<close> in the first and \<open>SEVENZIP = 1\<close> in the second, where 0
  is \<open>AUTO\<close>. So neither pair of definitions is interchangeable: as maps from names to
  values they differ.
\<close>

theorem enumerations_inconsistent:
  "enum_value SzResult_members ''INVALID_ARGUMENT'' = Some 5
   \<and> enum_value ffi_SzResult_members ''INVALID_ARGUMENT'' = Some 3
   \<and> enum_value SzFormat_members ''SEVEN_Z'' = Some 0
   \<and> enum_value ffi_SzFormat_members ''SEVENZIP'' = Some 1
   \<and> enum_name ffi_SzFormat_members 0 = Some ''AUTO''
   \<and> enum_value SzFormat_members ''ZIP'' = Some 1
   \<and> enum_value ffi_SzFormat_members ''ZIP'' = Some 2
   \<and> enum_value SzResult_members \<noteq> enum_value ffi_SzResult_members
   \<and> enum_value SzFormat_members \<noteq> enum_value ffi_SzFormat_members"
proof -
  have r: "enum_value SzResult_members \<noteq> enum_value ffi_SzResult_members"
  proof
    assume "enum_value SzResult_members = enum_value ffi_SzResult_members"
    then have "enum_value SzResult_members ''INVALID_ARGUMENT''
      = enum_value ffi_SzResult_members ''INVALID_ARGUMENT''" by simp
    then show False by (simp add: result_INVALID_ARGUMENT)
  qed
  have f: "enum_value SzFormat_members \<noteq> enum_value ffi_SzFormat_members"
  proof
    assume "enum_value SzFormat_members = enum_value ffi_SzFormat_members"
    then have "enum_value SzFormat_members ''ZIP''
      = enum_value ffi_SzFormat_members ''ZIP''" by simp
    then show False by (simp add: format_ZIP)
  qed
  show ?thesis
    using r f by (simp add: result_INVALID_ARGUMENT format_seven_z format_ZIP format_value_0)
qed

section \<open>The compression ratio\<close>

lemma get_archive_info_dict_ratio:
  "get_archive_info_dict to_float info = Inr d \<Longrightarrow>
     compression_ratio to_float info = Inr (info_compression_ratio d)"
  by (auto simp: get_archive_info_dict_def split: option.splits sum.splits)

lemma get_archive_info_dict_no_division_error:
  "get_archive_info_dict to_float info \<noteq> Inl ZeroDivisionError"
  by (auto simp: get_archive_info_dict_def compression_ratio_def truediv_def
      split: option.splits sum.splits)

text \<open>
  Claim C8. For every archive information structure the derived
  \<open>compression_ratio\<close> is \<open>packed_size / total_size\<close> (Python's true division of the
  two unsigned fields) when \<open>total_size > 0\<close> and is \<open>0\<close> when \<open>total_size = 0\<close>; it is
  always a value, never a \<open>ZeroDivisionError\<close>.
\<close>

theorem compression_ratio_defined:
  "compression_ratio to_float info =
     Inr (if total_size info = 0 then PyInt 0
          else PyFloat (to_float (of_int (uint (packed_size info))
                                   / of_int (uint (total_size info)))))
   \<and> compression_ratio to_float info \<noteq> Inl ZeroDivisionError"
proof -
  have pos: "uint (total_size info) > 0 \<longleftrightarrow> total_size info \<noteq> 0"
    by (simp add: word_neq_0_conv word_less_def)
  have nz: "total_size info \<noteq> 0 \<Longrightarrow> uint (total_size info) \<noteq> 0"
    by (simp add: uint_0_iff)
  show ?thesis
    by (simp add: compression_ratio_def truediv_def pos nz)
qed

section \<open>Facts about the error check and the handles\<close>

lemma check_result_ok [simp]: "check_result lib 0 operation tr = (Inr (), tr)"
  by (simp add: check_result_def)

lemma check_result_cases:
  "check_result lib result operation tr = (Inr (), tr) \<and> result = 0
   \<or> (\<exists>e. check_result lib result operation tr = (Inl e, tr @ [Call_sz_get_last_error_message])
          \<and> result \<noteq> 0)"
  by (auto simp: check_result_def Let_def split: option.splits sum.splits)

lemma check_result_Inr:
  "check_result lib result operation tr = (Inr u, tr') \<Longrightarrow> result = 0 \<and> tr' = tr"
  using check_result_cases [of lib result operation tr] by auto

lemma check_result_Inl:
  "check_result lib result operation tr = (Inl e, tr') \<Longrightarrow>
     result \<noteq> 0 \<and> tr' = tr @ [Call_sz_get_last_error_message]"
  using check_result_cases [of lib result operation tr] by auto

lemma truthy_None [simp]: "\<not> truthy None"
  by (simp add: truthy_def)

section \<open>Releasing a handle at most once\<close>

lemma close_times_not_truthy:
  "\<not> truthy (Archive_handle a) \<Longrightarrow> close_times n a tr = (a, tr)"
  by (induction n) (simp_all add: Archive_close_def)

lemma close_times_eq:
  "close_times n a tr =
     (if n = 0 \<or> \<not> truthy (Archive_handle a) then (a, tr)
      else (a\<lparr>Archive_handle := None\<rparr>,
            tr @ [Call_sz_archive_close (address (Archive_handle a))]))"
  by (cases n) (simp_all add: Archive_close_def close_times_not_truthy)

lemma cancel_times_not_truthy:
  "\<not> truthy (Writer_handle w) \<Longrightarrow> cancel_times n w tr = (w, tr)"
  by (induction n) (simp_all add: Writer_cancel_def)

lemma cancel_times_eq:
  "cancel_times n w tr =
     (if n = 0 \<or> \<not> truthy (Writer_handle w) then (w, tr)
      else (w\<lparr>Writer_handle := None, Writer_finalized := True\<rparr>,
            tr @ [Call_sz_writer_cancel (address (Writer_handle w))]))"
  by (cases n) (simp_all add: Writer_cancel_def cancel_times_not_truthy)

text \<open>
  Claim C3. For every archive and every writer, however many times \<open>close\<close> (on the
  archive) or \<open>cancel\<close> (on the writer) is called in a row, the calls together invoke
  the native release function, \<open>sz_archive_close\<close> or \<open>sz_writer_cancel\<close>, at most
  once: after the first call the attribute \<open>_handle\<close> no longer holds a pointer, and
  the later calls do nothing.
\<close>

theorem release_at_most_once:
  "length (filter is_archive_close (new_events tr (snd (close_times n archive tr)))) \<le> 1
   \<and> \<not> truthy (Archive_handle (fst (close_times (Suc n) archive tr)))
   \<and> length (filter is_writer_cancel (new_events tr (snd (cancel_times n writer tr)))) \<le> 1
   \<and> \<not> truthy (Writer_handle (fst (cancel_times (Suc n) writer tr)))"
  by (simp add: close_times_eq cancel_times_eq new_events_def
      del: close_times.simps cancel_times.simps)

theorem release_at_most_once_witness:
  "snd (close_times 3 \<lparr>Archive_handle = Some 7\<rparr> []) = [Call_sz_archive_close 7]
   \<and> snd (cancel_times 3 \<lparr>Writer_handle = Some 9, Writer_finalized = False\<rparr> [])
       = [Call_sz_writer_cancel 9]
   \<and> length (filter is_archive_close
        (new_events [] (snd (close_times 3 \<lparr>Archive_handle = Some 7\<rparr> [])))) \<le> 1
   \<and> length (filter is_writer_cancel
        (new_events []
           (snd (cancel_times 3 \<lparr>Writer_handle = Some 9, Writer_finalized = False\<rparr> [])))) \<le> 1"
  using release_at_most_once [where tr = "[]" and n = 3
      and archive = "\<lparr>Archive_handle = Some 7\<rparr>"
      and writer = "\<lparr>Writer_handle = Some 9, Writer_finalized = False\<rparr>"]
  by (simp add: numeral_3_eq_3 Archive_close_def Writer_cancel_def truthy_def address_def)

section \<open>The writer after finalize, and use after release\<close>

lemma Writer_finalize_success:
  assumes "Writer_finalize lib w tr = (Inr u, w1, tr1)"
  shows "truthy (Writer_handle w1) \<and> Writer_finalized w1 \<and> Writer_handle w1 = Writer_handle w"
  using assms
  by (auto simp: Writer_finalize_def Let_def split: if_splits prod.splits sum.splits)

lemma Writer_cancel_released:
  "Writer_cancel w0 tr0 = (w, tr1) \<Longrightarrow> \<not> truthy (Writer_handle w)"
  by (auto simp: Writer_cancel_def split: if_splits)

lemma Archive_close_released:
  "Archive_close a0 tr0 = (a, tr1) \<Longrightarrow> \<not> truthy (Archive_handle a)"
  by (auto simp: Archive_close_def split: if_splits)

text \<open>
  Claim C1, as the specification states it: once \<open>finalize\<close> has succeeded on a
  writer, \<open>cancel\<close> is a no-op that does not raise, and a second \<open>finalize\<close> is
  rejected with an \<open>InvalidState\<close> error. The code does neither. On the writer with
  the handle 9, in the library where every call succeeds, \<open>finalize\<close> succeeds; a
  second \<open>finalize\<close> then returns normally, with the writer and the events unchanged;
  and \<open>cancel\<close> changes the writer and the events.
\<close>

theorem second_finalize_counterexample:
  "Writer_finalize lib_ok \<lparr>Writer_handle = Some 9, Writer_finalized = False\<rparr> [] =
     (Inr (), \<lparr>Writer_handle = Some 9, Writer_finalized = True\<rparr>, [Call_sz_writer_finalize 9])
   \<and> Writer_finalize lib_ok \<lparr>Writer_handle = Some 9, Writer_finalized = True\<rparr>
        [Call_sz_writer_finalize 9] =
       (Inr (), \<lparr>Writer_handle = Some 9, Writer_finalized = True\<rparr>, [Call_sz_writer_finalize 9])
   \<and> Writer_cancel \<lparr>Writer_handle = Some 9, Writer_finalized = True\<rparr> [Call_sz_writer_finalize 9]
       \<noteq> (\<lparr>Writer_handle = Some 9, Writer_finalized = True\<rparr>, [Call_sz_writer_finalize 9])"
  by (simp add: Writer_finalize_def Writer_cancel_def lib_ok_def truthy_def address_def)

text \<open>
  Claim C1, amended. Once \<open>finalize\<close> has succeeded on a writer: a second \<open>finalize\<close>
  returns normally, without an error and without a native call; \<open>cancel\<close> does not
  raise (it has no exception to return) and is not a no-op: it calls
  \<open>sz_writer_cancel\<close> on the handle, once, and sets \<open>_handle\<close> to \<open>None\<close>; a second
  \<open>cancel\<close> after it is a no-op; and \<open>finalize\<close> after that \<open>cancel\<close> raises the
  \<open>SevenZipError\<close> of a writer that has no handle, whose code is \<open>FAIL\<close>.
\<close>

theorem after_finalize:
  assumes "Writer_finalize lib w tr = (Inr (), w1, tr1)"
  shows "Writer_finalize lib w1 tr1 = (Inr (), w1, tr1)
   \<and> Writer_cancel w1 tr1 =
       (w1\<lparr>Writer_handle := None, Writer_finalized := True\<rparr>,
        tr1 @ [Call_sz_writer_cancel (address (Writer_handle w1))])
   \<and> Writer_cancel (w1\<lparr>Writer_handle := None, Writer_finalized := True\<rparr>)
        (tr1 @ [Call_sz_writer_cancel (address (Writer_handle w1))]) =
       (w1\<lparr>Writer_handle := None, Writer_finalized := True\<rparr>,
        tr1 @ [Call_sz_writer_cancel (address (Writer_handle w1))])
   \<and> Writer_finalize lib (w1\<lparr>Writer_handle := None, Writer_finalized := True\<rparr>)
        (tr1 @ [Call_sz_writer_cancel (address (Writer_handle w1))]) =
       (Inl (SevenZipError ''writer not initialized'' FAIL),
        w1\<lparr>Writer_handle := None, Writer_finalized := True\<rparr>,
        tr1 @ [Call_sz_writer_cancel (address (Writer_handle w1))])"
proof -
  from Writer_finalize_success [OF assms]
  have t: "truthy (Writer_handle w1)" and f: "Writer_finalized w1" by blast+
  show ?thesis
    by (simp add: Writer_finalize_def Writer_cancel_def t f)
qed

theorem after_finalize_witness:
  "Writer_finalize lib_ok \<lparr>Writer_handle = Some 9, Writer_finalized = False\<rparr> [] =
     (Inr (), \<lparr>Writer_handle = Some 9, Writer_finalized = True\<rparr>, [Call_sz_writer_finalize 9])
   \<and> Writer_cancel \<lparr>Writer_handle = Some 9, Writer_finalized = True\<rparr> [Call_sz_writer_finalize 9] =
       (\<lparr>Writer_handle = None, Writer_finalized = True\<rparr>,
        [Call_sz_writer_finalize 9, Call_sz_writer_cancel 9])"
proof -
  have h: "Writer_finalize lib_ok \<lparr>Writer_handle = Some 9, Writer_finalized = False\<rparr> [] =
     (Inr (), \<lparr>Writer_handle = Some 9, Writer_finalized = True\<rparr>, [Call_sz_writer_finalize 9])"
    by (simp add: Writer_finalize_def lib_ok_def truthy_def address_def)
  from after_finalize [OF h] h show ?thesis
    by (simp add: address_def)
qed

lemma Writer_ops_released:
  assumes "\<not> truthy (Writer_handle w) \<or> Writer_finalized w"
  shows "\<exists>m. Writer_add_file lib w fp ap tr = (Inl (SevenZipError m FAIL), tr)"
    and "\<exists>m. Writer_add_directory lib w dp rec tr = (Inl (SevenZipError m FAIL), tr)"
    and "\<exists>m. Writer_add_memory lib w data apath tr = (Inl (SevenZipError m FAIL), tr)"
    and "\<exists>m. Writer_set_password lib w pw tr = (Inl (SevenZipError m FAIL), tr)"
    and "\<exists>m. Writer_set_compression_level lib w lvl tr = (Inl (SevenZipError m FAIL), tr)"
  using assms
  by (auto simp: Writer_add_file_def Writer_add_directory_def Writer_add_memory_def
      Writer_set_password_def Writer_set_compression_level_def)

lemma Archive_ops_released:
  assumes "\<not> truthy (Archive_handle a)"
  shows "Archive_item_count lib a tr = (Inl (SevenZipError ''archive not open'' FAIL), tr)"
    and "Archive_get_item_info lib a i tr = (Inl (SevenZipError ''archive not open'' FAIL), tr)"
    and "Archive_extract_to_memory lib a i tr
           = (Inl (SevenZipError ''archive not open'' FAIL), tr)"
  using assms
  by (simp_all add: Archive_item_count_def Archive_get_item_info_def
      Archive_extract_to_memory_def)

lemma no_INVALID_STATE: "\<not> is_InvalidState (SevenZipError m FAIL)"
  by (simp add: is_InvalidState_def)

text \<open>
  Claim C2, as the specification states it: on a writer after \<open>finalize\<close> or \<open>cancel\<close>
  and on an archive after \<open>close\<close>, every operation fails with an \<open>InvalidState\<close>
  error without a call of the native library. The error is not an \<open>InvalidState\<close>
  error: \<open>add_file\<close> on the finalized writer raises a \<open>SevenZipError\<close> whose code is
  \<open>FAIL\<close>, and the result enumeration of the module has no member \<open>INVALID_STATE\<close>.
\<close>

theorem invalid_state_counterexample:
  "Writer_finalize lib_ok \<lparr>Writer_handle = Some 9, Writer_finalized = False\<rparr> [] =
     (Inr (), \<lparr>Writer_handle = Some 9, Writer_finalized = True\<rparr>, [Call_sz_writer_finalize 9])
   \<and> Writer_add_file lib_ok \<lparr>Writer_handle = Some 9, Writer_finalized = True\<rparr>
        (Str ''a.txt'') None [Call_sz_writer_finalize 9] =
       (Inl (SevenZipError ''archive is finalized, cannot add more files'' FAIL),
        [Call_sz_writer_finalize 9])
   \<and> \<not> is_InvalidState (SevenZipError ''archive is finalized, cannot add more files'' FAIL)
   \<and> SzResult_name FAIL = ''FAIL''
   \<and> enum_value SzResult_members ''INVALID_STATE'' = None"
  by (simp add: Writer_finalize_def Writer_add_file_def lib_ok_def truthy_def address_def
      is_InvalidState_def enum_value_def SzResult_members_eq)

text \<open>
  Claim C2, amended. On a writer that a successful \<open>finalize\<close> or a \<open>cancel\<close> has
  left, each of \<open>add_file\<close>, \<open>add_directory\<close>, \<open>add_memory\<close>, \<open>set_password\<close> and
  \<open>set_compression_level\<close>, and on an archive that \<open>close\<close> has left, each of
  \<open>item_count\<close>, \<open>get_item_info\<close> and \<open>extract_to_memory\<close>, raises a \<open>SevenZipError\<close>
  whose code is the generic \<open>FAIL\<close>, and adds no event: it calls no function of the
  native library.
\<close>

theorem released_operations_fail:
  assumes w: "Writer_finalize lib0 w0 tr0 = (Inr (), w, tr1) \<or> Writer_cancel w0 tr0 = (w, tr1)"
    and a: "Archive_close a0 tr2 = (a, tr3)"
  shows "(\<exists>m. Writer_add_file lib w fp ap tr = (Inl (SevenZipError m FAIL), tr))
   \<and> (\<exists>m. Writer_add_directory lib w dp rec tr = (Inl (SevenZipError m FAIL), tr))
   \<and> (\<exists>m. Writer_add_memory lib w data apath tr = (Inl (SevenZipError m FAIL), tr))
   \<and> (\<exists>m. Writer_set_password lib w pw tr = (Inl (SevenZipError m FAIL), tr))
   \<and> (\<exists>m. Writer_set_compression_level lib w lvl tr = (Inl (SevenZipError m FAIL), tr))
   \<and> Archive_item_count lib a tr = (Inl (SevenZipError ''archive not open'' FAIL), tr)
   \<and> Archive_get_item_info lib a i tr = (Inl (SevenZipError ''archive not open'' FAIL), tr)
   \<and> Archive_extract_to_memory lib a i tr
       = (Inl (SevenZipError ''archive not open'' FAIL), tr)"
proof -
  from w have t: "\<not> truthy (Writer_handle w) \<or> Writer_finalized w"
    using Writer_finalize_success Writer_cancel_released by blast
  from a have c: "\<not> truthy (Archive_handle a)"
    by (rule Archive_close_released)
  show ?thesis
    using Writer_ops_released [OF t] Archive_ops_released [OF c] by simp
qed

theorem released_operations_fail_witness:
  "Writer_cancel \<lparr>Writer_handle = Some 9, Writer_finalized = False\<rparr> [] =
     (\<lparr>Writer_handle = None, Writer_finalized = True\<rparr>, [Call_sz_writer_cancel 9])
   \<and> Archive_close \<lparr>Archive_handle = Some 7\<rparr> [] =
       (\<lparr>Archive_handle = None\<rparr>, [Call_sz_archive_close 7])
   \<and> (\<exists>m. Writer_add_file lib_ok \<lparr>Writer_handle = None, Writer_finalized = True\<rparr>
            (Str ''a.txt'') None [Call_sz_writer_cancel 9]
          = (Inl (SevenZipError m FAIL), [Call_sz_writer_cancel 9]))
   \<and> Archive_item_count lib_ok \<lparr>Archive_handle = None\<rparr> [Call_sz_archive_close 7]
       = (Inl (SevenZipError ''archive not open'' FAIL), [Call_sz_archive_close 7])"
proof -
  have w: "Writer_cancel \<lparr>Writer_handle = Some 9, Writer_finalized = False\<rparr> [] =
     (\<lparr>Writer_handle = None, Writer_finalized = True\<rparr>, [Call_sz_writer_cancel 9])"
    by (simp add: Writer_cancel_def truthy_def address_def)
  have a: "Archive_close \<lparr>Archive_handle = Some 7\<rparr> [] =
       (\<lparr>Archive_handle = None\<rparr>, [Call_sz_archive_close 7])"
    by (simp add: Archive_close_def truthy_def address_def)
  from released_operations_fail [OF disjI2 [OF w] a, of lib_ok "Str ''a.txt''" None
      "[Call_sz_writer_cancel 9]"]
  have "\<exists>m. Writer_add_file lib_ok \<lparr>Writer_handle = None, Writer_finalized = True\<rparr>
            (Str ''a.txt'') None [Call_sz_writer_cancel 9]
          = (Inl (SevenZipError m FAIL), [Call_sz_writer_cancel 9])"
    by blast
  moreover
  from released_operations_fail [OF disjI2 [OF w] a, where lib = lib_ok
      and tr = "[Call_sz_archive_close 7]"]
  have "Archive_item_count lib_ok \<lparr>Archive_handle = None\<rparr> [Call_sz_archive_close 7]
       = (Inl (SevenZipError ''archive not open'' FAIL), [Call_sz_archive_close 7])"
    by blast
  ultimately show ?thesis using w a by blast
qed

section \<open>The buffer of an extraction\<close>

text \<open>Whatever \<open>string_at\<close> does, once the native extraction has succeeded the buffer
  is copied from and then freed.\<close>

lemma extract_to_memory_frees_on_error:
  assumes "truthy (Archive_handle a)"
    and "sz_archive_extract_to_memory lib tr (address (Archive_handle a)) (word_of_int index)
           = (0, p, n)"
  shows "snd (Archive_extract_to_memory lib a index tr) =
     tr @ [Call_sz_archive_extract_to_memory (address (Archive_handle a)) (word_of_int index),
           Copy_string_at p (unat n), Call_sz_memory_free p]"
  using assms by (simp add: Archive_extract_to_memory_def Let_def)

text \<open>
  Claim C7. Whenever \<open>extract_to_memory(index)\<close> returns a \<open>bytes\<close> object, the
  native call succeeded and handed out a buffer \<open>p\<close> of \<open>n\<close> bytes; the events the
  call added are, in this order, the native extraction, the copy \<open>string_at\<close> takes
  of the buffer, and \<open>sz_memory_free\<close> of the buffer: the buffer is freed exactly
  once, and after the copy. The object returned is the copy \<open>string_at\<close> made, a
  value of its own that the release of the buffer does not touch.
\<close>

theorem extract_to_memory_frees_once:
  assumes "Archive_extract_to_memory lib a index tr = (Inr data, tr')"
  shows "\<exists>p n.
      sz_archive_extract_to_memory lib tr (address (Archive_handle a)) (word_of_int index)
        = (0, p, n)
    \<and> tr' = tr @ [Call_sz_archive_extract_to_memory (address (Archive_handle a))
                    (word_of_int index),
                  Copy_string_at p (unat n), Call_sz_memory_free p]
    \<and> string_at lib
        (tr @ [Call_sz_archive_extract_to_memory (address (Archive_handle a))
                 (word_of_int index)]) p (unat n) = Inr data
    \<and> length (filter (\<lambda>e. e = Call_sz_memory_free p) (new_events tr tr')) = 1"
proof -
  obtain rc p n where nat:
    "sz_archive_extract_to_memory lib tr (address (Archive_handle a)) (word_of_int index)
       = (rc, p, n)"
    by (metis prod_cases3)
  from assms have t: "truthy (Archive_handle a)"
    by (auto simp: Archive_extract_to_memory_def split: if_splits)
  let ?tr1 = "tr @ [Call_sz_archive_extract_to_memory (address (Archive_handle a))
                 (word_of_int index)]"
  from assms t nat obtain u tr2 where c: "check_result lib rc ''extract to memory'' ?tr1 = (Inr u, tr2)"
    and r: "string_at lib tr2 p (unat n) = Inr data"
    and e: "tr' = tr2 @ [Copy_string_at p (unat n), Call_sz_memory_free p]"
    by (auto simp: Archive_extract_to_memory_def Let_def split: prod.splits sum.splits)
  from check_result_Inr [OF c] have "rc = 0" and "tr2 = ?tr1" by simp_all
  with nat r e show ?thesis
    by (simp add: new_events_def)
qed

theorem extract_to_memory_frees_once_witness:
  "Archive_extract_to_memory lib_ok \<lparr>Archive_handle = Some 7\<rparr> 2 [] =
     (Inr ''abc'',
      [Call_sz_archive_extract_to_memory 7 2, Copy_string_at 102 3, Call_sz_memory_free 102])
   \<and> (\<exists>p n. sz_archive_extract_to_memory lib_ok [] 7 2 = (0, p, n)
        \<and> length (filter (\<lambda>e. e = Call_sz_memory_free p)
             (new_events []
                [Call_sz_archive_extract_to_memory 7 2, Copy_string_at 102 3,
                 Call_sz_memory_free 102])) = 1)"
proof -
  have h: "Archive_extract_to_memory lib_ok \<lparr>Archive_handle = Some 7\<rparr> 2 [] =
     (Inr ''abc'',
      [Call_sz_archive_extract_to_memory 7 2, Copy_string_at 102 3, Call_sz_memory_free 102])"
    by (simp add: Archive_extract_to_memory_def lib_ok_def truthy_def address_def
        demo_content_def)
  from extract_to_memory_frees_once [OF h] h show ?thesis
    by (auto simp: address_def)
qed

section \<open>Names the writer does not recognise\<close>

lemma dict_get_absent: "k \<notin> set (map fst d) \<Longrightarrow> dict_get d k dflt = dflt"
  by (simp add: dict_get_def map_of_eq_None_iff [THEN iffD2])

text \<open>
  Claim C10, as stated: for every format string that is not one of the names
  \<open>7z\<close>, \<open>sevenzip\<close>, \<open>zip\<close>, \<open>tar\<close>, \<open>gzip\<close>, \<open>gz\<close>, \<open>bzip2\<close>, \<open>bz2\<close>, \<open>xz\<close>,
  \<open>Writer.create\<close> uses \<open>SEVEN_Z\<close>. The string \<open>ZIP\<close> is none of these names, and
  \<open>Writer.create\<close> passes the value 1 of \<open>ZIP\<close> to the native library, not the value
  0 of \<open>SEVEN_Z\<close>: the code looks up \<open>format.lower()\<close>.
\<close>

theorem upper_case_format_counterexample:
  "''ZIP'' \<notin> {''7z'', ''sevenzip'', ''zip'', ''tar'', ''gzip'', ''gz'', ''bzip2'', ''bz2'', ''xz''}
   \<and> Writer_create lib_ok (Str ''out.zip'') (Inl ''ZIP'') [] =
       (Inr \<lparr>Writer_handle = Some 9, Writer_finalized = False\<rparr>,
        [Call_sz_writer_create ''out.zip'' 1])
   \<and> SzFormat_value ZIP = 1 \<and> SzFormat_value SEVEN_Z = 0"
  by (simp add: Writer_create_def lib_ok_def Writer_init_def dict_get_def format_map_def
      lower_def lower_char_def)

text \<open>
  Claim C10, amended. For every format string whose lower-case form is not one of
  the names \<open>7z\<close>, \<open>sevenzip\<close>, \<open>zip\<close>, \<open>tar\<close>, \<open>gzip\<close>, \<open>gz\<close>, \<open>bzip2\<close>, \<open>bz2\<close>,
  \<open>xz\<close>, \<open>Writer.create\<close> does exactly what it does for the format \<open>SEVEN_Z\<close>: its
  first event is the native creation with the value of \<open>SEVEN_Z\<close>, and the name raises
  nothing. For every level string whose lower-case form is not one of \<open>none\<close>,
  \<open>fast\<close>, \<open>normal\<close>, \<open>maximum\<close>, \<open>ultra\<close>, \<open>set_compression_level\<close> does exactly what
  it does for the level \<open>NORMAL\<close>.
\<close>

theorem unrecognized_names_default:
  assumes "lower fmt \<notin> {''7z'', ''sevenzip'', ''zip'', ''tar'', ''gzip'', ''gz'', ''bzip2'',
             ''bz2'', ''xz''}"
    and "lower level \<notin> {''none'', ''fast'', ''normal'', ''maximum'', ''ultra''}"
  shows "Writer_create lib path (Inl fmt) tr = Writer_create lib path (Inr SEVEN_Z) tr
   \<and> take 1 (new_events tr (snd (Writer_create lib path (Inl fmt) tr)))
       = [Call_sz_writer_create (str_of path) (SzFormat_value SEVEN_Z)]
   \<and> Writer_set_compression_level lib w (Inl level) tr
       = Writer_set_compression_level lib w (Inr NORMAL) tr"
proof -
  from assms(1) have f: "dict_get format_map (lower fmt) SEVEN_Z = SEVEN_Z"
    by (intro dict_get_absent) (simp add: format_map_def)
  from assms(2) have l: "dict_get level_map (lower level) NORMAL = NORMAL"
    by (intro dict_get_absent) (simp add: level_map_def)
  have e: "\<exists>evs. snd (Writer_create lib path (Inr SEVEN_Z) tr)
      = tr @ Call_sz_writer_create (str_of path) (SzFormat_value SEVEN_Z) # evs"
    using check_result_cases [of lib
        "fst (sz_writer_create lib tr (str_of path) (SzFormat_value SEVEN_Z))"
        "''create archive writer''"
        "tr @ [Call_sz_writer_create (str_of path) (SzFormat_value SEVEN_Z)]"]
    by (auto simp: Writer_create_def Let_def split: prod.splits)
  have c: "Writer_create lib path (Inl fmt) tr = Writer_create lib path (Inr SEVEN_Z) tr"
    by (simp add: Writer_create_def f)
  have s: "Writer_set_compression_level lib w (Inl level) tr
       = Writer_set_compression_level lib w (Inr NORMAL) tr"
    by (simp add: Writer_set_compression_level_def l)
  from e c s show ?thesis by (auto simp: new_events_def)
qed

theorem unrecognized_names_default_witness:
  "Writer_create lib_ok (Str ''out.rar'') (Inl ''rar'') [] =
     (Inr \<lparr>Writer_handle = Some 9, Writer_finalized = False\<rparr>,
      [Call_sz_writer_create ''out.rar'' 0])
   \<and> Writer_set_compression_level lib_ok \<lparr>Writer_handle = Some 9, Writer_finalized = False\<rparr>
        (Inl ''best'') [] = (Inr (), [Call_sz_writer_set_compression_level 9 2])"
proof -
  have f: "lower ''rar'' \<notin> {''7z'', ''sevenzip'', ''zip'', ''tar'', ''gzip'', ''gz'', ''bzip2'',
             ''bz2'', ''xz''}"
    by (simp add: lower_def lower_char_def)
  have l: "lower ''best'' \<notin> {''none'', ''fast'', ''normal'', ''maximum'', ''ultra''}"
    by (simp add: lower_def lower_char_def)
  from unrecognized_names_default [OF f l, of lib_ok "Str ''out.rar''" "[]"
      "\<lparr>Writer_handle = Some 9, Writer_finalized = False\<rparr>"]
  show ?thesis
    by (simp add: Writer_create_def Writer_set_compression_level_def lib_ok_def Writer_init_def
        truthy_def address_def)
qed

section \<open>The default archive path of add_file\<close>

text \<open>The name of a path is its final component. For a path string that ends in a
  component \<open>n\<close> (not empty, not \<open>.\<close>, and without a slash), whether \<open>n\<close> is the whole
  string or follows a slash, and whatever slashes follow it, the name is \<open>n\<close>.\<close>

lemma split_slash_not_Nil [simp]: "split_slash s \<noteq> []"
  by (induction s) (auto split: list.splits)

lemma split_slash_append:
  "split_slash (xs @ CHR ''/'' # ys) = split_slash xs @ split_slash ys"
  by (induction xs) (auto split: list.splits)

lemma split_slash_no_slash: "CHR ''/'' \<notin> set s \<Longrightarrow> split_slash s = [s]"
  by (induction s) auto

lemma split_slash_slashes: "split_slash (replicate k CHR ''/'') = replicate (Suc k) []"
  by (induction k) simp_all

lemma split_slash_trailing:
  assumes "CHR ''/'' \<notin> set n"
  shows "split_slash (n @ replicate k CHR ''/'') = n # replicate k []"
proof (cases k)
  case 0
  then show ?thesis using assms by (simp add: split_slash_no_slash)
next
  case (Suc j)
  then show ?thesis
    using assms by (simp add: split_slash_append split_slash_no_slash split_slash_slashes)
qed

lemma filter_components:
  assumes "n \<noteq> []" and "n \<noteq> ''.''"
  shows "filter (\<lambda>x. x \<noteq> [] \<and> x \<noteq> ''.'') (ps @ n # replicate k [])
           = filter (\<lambda>x. x \<noteq> [] \<and> x \<noteq> ''.'') ps @ [n]"
  using assms by (induction k) simp_all

lemma splitroot_suffix:
  assumes "m \<noteq> []" and "hd m \<noteq> CHR ''/''"
  shows "\<exists>d'. snd (splitroot (d @ CHR ''/'' # m)) = d' @ CHR ''/'' # m
           \<or> snd (splitroot (d @ CHR ''/'' # m)) = m"
proof (cases d)
  case Nil
  then show ?thesis using assms by (cases m) (auto simp: splitroot_def)
next
  case (Cons c d1)
  show ?thesis
  proof (cases d1)
    case Nil
    with Cons show ?thesis using assms by (cases m) (auto simp: splitroot_def)
  next
    case (Cons c2 d2)
    with \<open>d = c # d1\<close> show ?thesis by (auto simp: splitroot_def)
  qed
qed

lemma path_name_final_component:
  assumes "CHR ''/'' \<notin> set n" and "n \<noteq> []" and "n \<noteq> ''.''"
  shows "path_name (Path_of_str (d @ CHR ''/'' # n @ replicate k CHR ''/'')) = n"
proof -
  let ?m = "n @ replicate k CHR ''/''"
  have m1: "?m \<noteq> []"
    using assms(2) by simp
  have m2: "hd ?m \<noteq> CHR ''/''"
    using assms(1,2) by (cases n) auto
  note m = m1 m2
  obtain r rel where sr: "splitroot (d @ CHR ''/'' # ?m) = (r, rel)"
    by (cases "splitroot (d @ CHR ''/'' # ?m)")
  from splitroot_suffix [OF m, of d] sr
  have "(\<exists>d'. rel = d' @ CHR ''/'' # ?m) \<or> rel = ?m" by simp
  then have "\<exists>ps. split_slash rel = ps @ n # replicate k []"
  proof (elim exE disjE)
    fix d' assume "rel = d' @ CHR ''/'' # ?m"
    then show ?thesis
      using assms(1) by (simp add: split_slash_append split_slash_trailing)
  next
    assume "rel = ?m"
    then have "split_slash rel = [] @ n # replicate k []"
      using assms(1) by (simp add: split_slash_trailing)
    then show ?thesis by blast
  qed
  then obtain ps where "split_slash rel = ps @ n # replicate k []" ..
  with sr show ?thesis
    using assms(2,3) by (simp add: path_name_def Path_of_str_def filter_components)
qed

lemma path_name_single_component:
  assumes "CHR ''/'' \<notin> set n" and "n \<noteq> []" and "n \<noteq> ''.''"
  shows "path_name (Path_of_str (n @ replicate k CHR ''/'')) = n"
proof -
  have "splitroot (n @ replicate k CHR ''/'') = ([], n @ replicate k CHR ''/'')"
    using assms by (cases n) (auto simp: splitroot_def)
  then show ?thesis
    using assms filter_components [OF assms(2,3), of "[]" k]
    by (simp add: path_name_def Path_of_str_def split_slash_trailing)
qed

text \<open>
  Claim C9. When \<open>add_file\<close> is called without an archive path on a writer that
  accepts files (it holds a handle and is not finalized), the archive path it passes to
  the native \<open>sz_writer_add_file\<close> is the final component of the source path: for a
  source path given as a string whose last component is \<open>n\<close>, be it \<open>n\<close> alone or
  \<open>d/n\<close>, with or without slashes after it, or as a \<open>Path\<close> whose last component is
  \<open>n\<close>, the first event of the call is \<open>sz_writer_add_file\<close> with the source path
  and the archive path \<open>n\<close>, and nothing follows it but the reading of an error
  message when the native call failed.
\<close>

theorem add_file_default_archive_path:
  assumes live: "truthy (Writer_handle w)" "\<not> Writer_finalized w"
    and name: "CHR ''/'' \<notin> set n" "n \<noteq> []" "n \<noteq> ''.''"
    and path: "file_path = Str (n @ replicate k CHR ''/'')
             \<or> file_path = Str (d @ CHR ''/'' # n @ replicate k CHR ''/'')
             \<or> file_path = PathObj (Path r (ps @ [n]))"
  shows "new_events tr (snd (Writer_add_file lib w file_path None tr)) =
     Call_sz_writer_add_file (address (Writer_handle w)) (str_of file_path) n
     # (if sz_writer_add_file lib tr (address (Writer_handle w)) (str_of file_path) n = 0
        then [] else [Call_sz_get_last_error_message])"
proof -
  have n: "path_name (Path_of file_path) = n"
    using path
  proof (elim disjE)
    assume "file_path = Str (n @ replicate k CHR ''/'')"
    then show ?thesis by (simp add: path_name_single_component [OF name])
  next
    assume "file_path = Str (d @ CHR ''/'' # n @ replicate k CHR ''/'')"
    then show ?thesis by (simp add: path_name_final_component [OF name])
  next
    assume "file_path = PathObj (Path r (ps @ [n]))"
    then show ?thesis by (simp add: path_name_def)
  qed
  let ?h = "address (Writer_handle w)"
  let ?rc = "sz_writer_add_file lib tr ?h (str_of file_path) n"
  let ?tr1 = "tr @ [Call_sz_writer_add_file ?h (str_of file_path) n]"
  have "Writer_add_file lib w file_path None tr = check_result lib ?rc ''add file'' ?tr1"
    using live by (simp add: Writer_add_file_def Let_def n)
  moreover have "snd (check_result lib ?rc ''add file'' ?tr1) =
      ?tr1 @ (if ?rc = 0 then [] else [Call_sz_get_last_error_message])"
    using check_result_cases [of lib ?rc "''add file''" ?tr1] by auto
  ultimately show ?thesis by (simp add: new_events_def)
qed



theorem add_file_default_archive_path_witness:
  "new_events [] (snd (Writer_add_file lib_ok \<lparr>Writer_handle = Some 9, Writer_finalized = False\<rparr>
       (Str ''dir/sub/file.txt'') None []))
     = [Call_sz_writer_add_file 9 ''dir/sub/file.txt'' ''file.txt'']
   \<and> new_events [] (snd (Writer_add_file lib_ok
       \<lparr>Writer_handle = Some 9, Writer_finalized = False\<rparr> (Str ''notes.md/'') None []))
     = [Call_sz_writer_add_file 9 ''notes.md/'' ''notes.md'']"
proof -
  let ?w = "\<lparr>Writer_handle = Some 9, Writer_finalized = False\<rparr>"
  have t: "truthy (Writer_handle ?w)"
    by (simp add: truthy_def)
  have f: "\<not> Writer_finalized ?w"
    by simp
  have 1: "new_events [] (snd (Writer_add_file lib_ok ?w (Str ''dir/sub/file.txt'') None []))
     = [Call_sz_writer_add_file 9 ''dir/sub/file.txt'' ''file.txt'']"
    using add_file_default_archive_path [where w = ?w and n = "''file.txt''" and k = 0
        and d = "''dir/sub''" and file_path = "Str ''dir/sub/file.txt''" and tr = "[]"
        and lib = lib_ok, OF t f]
    by (simp add: address_def lib_ok_def)
  have 2: "new_events [] (snd (Writer_add_file lib_ok ?w (Str ''notes.md/'') None []))
     = [Call_sz_writer_add_file 9 ''notes.md/'' ''notes.md'']"
    using add_file_default_archive_path [where w = ?w and n = "''notes.md''" and k = 1
        and file_path = "Str ''notes.md/''" and tr = "[]" and lib = lib_ok, OF t f]
    by (simp add: address_def lib_ok_def)
  from 1 2 show ?thesis by simp
qed

section \<open>Cleanup of a writer when the body of its with statement raises\<close>

text \<open>No method of the writer but \<open>finalize\<close> adds a \<open>sz_writer_finalize\<close> event, and
  the body of \<open>create_archive\<close> leaves the writer as it is.\<close>

lemma check_result_snd:
  "snd (check_result lib result operation tr) =
     tr @ (if result = 0 then [] else [Call_sz_get_last_error_message])"
  using check_result_cases [of lib result operation tr] by auto

lemma check_result_finalize [simp]:
  "filter is_writer_finalize (snd (check_result lib result operation tr))
     = filter is_writer_finalize tr"
  by (simp add: check_result_snd)

lemma add_file_finalize [simp]:
  "filter is_writer_finalize (snd (Writer_add_file lib w fp ap tr)) = filter is_writer_finalize tr"
  by (simp add: Writer_add_file_def Let_def)

lemma add_directory_finalize [simp]:
  "filter is_writer_finalize (snd (Writer_add_directory lib w dp r tr))
     = filter is_writer_finalize tr"
  by (simp add: Writer_add_directory_def Let_def)

lemma set_password_finalize [simp]:
  "filter is_writer_finalize (snd (Writer_set_password lib w pw tr))
     = filter is_writer_finalize tr"
  by (simp add: Writer_set_password_def Let_def)

lemma set_compression_level_finalize [simp]:
  "filter is_writer_finalize (snd (Writer_set_compression_level lib w l tr))
     = filter is_writer_finalize tr"
  by (simp add: Writer_set_compression_level_def Let_def)

lemma Writer_create_finalize [simp]:
  "filter is_writer_finalize (snd (Writer_create lib p f tr)) = filter is_writer_finalize tr"
proof -
  have "snd (Writer_create lib p f tr) =
    snd (check_result lib
      (fst (sz_writer_create lib tr (str_of p)
         (SzFormat_value (case f of Inl s \<Rightarrow> dict_get format_map (lower s) SEVEN_Z | Inr g \<Rightarrow> g))))
      ''create archive writer''
      (tr @ [Call_sz_writer_create (str_of p)
         (SzFormat_value (case f of Inl s \<Rightarrow> dict_get format_map (lower s) SEVEN_Z | Inr g \<Rightarrow> g))]))"
    by (simp add: Writer_create_def Let_def split: prod.splits sum.splits)
  then show ?thesis by simp
qed

lemma create_archive_loop_finalize [simp]:
  "filter is_writer_finalize (snd (create_archive_loop lib w files tr))
     = filter is_writer_finalize tr"
proof (induction files arbitrary: tr)
  case Nil
  show ?case by simp
next
  case (Cons f files)
  show ?case
  proof (cases "is_dir lib tr (Path_of f)")
    case True
    obtain r tr1 where s: "Writer_add_directory lib w (PathObj (Path_of f)) True tr = (r, tr1)"
      by (cases "Writer_add_directory lib w (PathObj (Path_of f)) True tr")
    from add_directory_finalize [of lib w "PathObj (Path_of f)" True tr] s
    have "filter is_writer_finalize tr1 = filter is_writer_finalize tr" by simp
    with True s Cons.IH [of tr1] show ?thesis
      by (cases r) (simp_all add: Let_def)
  next
    case False
    obtain r tr1 where s: "Writer_add_file lib w (PathObj (Path_of f)) None tr = (r, tr1)"
      by (cases "Writer_add_file lib w (PathObj (Path_of f)) None tr")
    from add_file_finalize [of lib w "PathObj (Path_of f)" None tr] s
    have "filter is_writer_finalize tr1 = filter is_writer_finalize tr" by simp
    with False s Cons.IH [of tr1] show ?thesis
      by (cases r) (simp_all add: Let_def)
  qed
qed

lemma create_archive_body_finalize:
  "filter is_writer_finalize (snd (snd (create_archive_body lib files pw lvl w tr)))
     = filter is_writer_finalize tr"
proof -
  obtain r1 tr1 where a: "Writer_set_compression_level lib w (Inl lvl) tr = (r1, tr1)"
    by (cases "Writer_set_compression_level lib w (Inl lvl) tr")
  from set_compression_level_finalize [of lib w "Inl lvl" tr] a
  have f1: "filter is_writer_finalize tr1 = filter is_writer_finalize tr" by simp
  let ?p = "case pw of None \<Rightarrow> (Inr (), tr1)
            | Some p \<Rightarrow> if p \<noteq> [] then Writer_set_password lib w p tr1 else (Inr (), tr1)"
  obtain r2 tr2 where b: "?p = (r2, tr2)" by (cases ?p)
  have "filter is_writer_finalize (snd ?p) = filter is_writer_finalize tr1"
    by (simp split: option.splits)
  with b f1 have f2: "filter is_writer_finalize tr2 = filter is_writer_finalize tr" by simp
  obtain r3 tr3 where c: "create_archive_loop lib w files tr2 = (r3, tr3)"
    by (cases "create_archive_loop lib w files tr2")
  from create_archive_loop_finalize [of lib w files tr2] c f2
  have f3: "filter is_writer_finalize tr3 = filter is_writer_finalize tr" by simp
  show ?thesis
    using a b c f1 f2 f3
    by (cases r1; cases r2) (simp_all add: create_archive_body_def)
qed

lemma create_archive_body_writer:
  "fst (snd (create_archive_body lib files pw lvl w tr)) = w"
  by (simp add: create_archive_body_def split: prod.splits sum.splits)

lemma Writer_exit_raised:
  "Writer_exit lib (Some e) w tr = (Inr False, Writer_cancel w tr)"
  by (simp add: Writer_exit_def split: prod.splits)

lemma with_Writer_raised:
  "body w tr = (Inl e, w1, tr1) \<Longrightarrow> with_Writer lib w body tr = (Inl e, Writer_cancel w1 tr1)"
  by (simp add: with_Writer_def Writer_exit_raised split: prod.splits)

lemma Writer_cancel_snd:
  "snd (Writer_cancel w tr) =
     tr @ (if truthy (Writer_handle w) then [Call_sz_writer_cancel (address (Writer_handle w))]
           else [])"
  by (simp add: Writer_cancel_def)

lemmas run_defs =
  create_archive_body_def Writer_set_compression_level_def Writer_set_password_def
  Writer_add_file_def Writer_add_directory_def Writer_create_def Writer_init_def
  check_result_def lib_add_fails_def lib_ok_def dict_get_def level_map_def format_map_def
  lower_def lower_char_def SzResult_of_int_def SzResult_all_def str_int_def str_nat.simps
  path_name_def path_str_def Path_of_str_def splitroot_def truthy_def address_def Let_def
  decode_def continuation_def

text \<open>
  Claim C5. With an exception, \<open>__exit__\<close> does not call \<open>finalize\<close>: it calls \<open>cancel\<close>
  and returns \<open>False\<close>. So for every \<open>with\<close> statement on a writer, in every library:
  when the body raises an exception, the statement raises that exception in the state
  \<open>cancel\<close> left, the cleanup has added the \<open>sz_writer_cancel\<close> of the handle (when the
  writer holds one) and nothing else, and no \<open>sz_writer_finalize\<close> event. And for
  \<open>create_archive\<close>: when a step after the creation of the writer raises,
  \<open>create_archive\<close> raises the same exception, its last event is the
  \<open>sz_writer_cancel\<close> of the writer's handle (when the handle is not \<open>NULL\<close>), and the
  whole run has added no \<open>sz_writer_finalize\<close> event.
\<close>

theorem cleanup_cancels:
  "Writer_exit lib (Some e) w1 tr1 = (Inr False, Writer_cancel w1 tr1)
   \<and> (body w tr = (Inl e, w1, tr1) \<longrightarrow>
        with_Writer lib w body tr = (Inl e, Writer_cancel w1 tr1)
        \<and> snd (Writer_cancel w1 tr1) =
            tr1 @ (if truthy (Writer_handle w1)
                   then [Call_sz_writer_cancel (address (Writer_handle w1))] else [])
        \<and> filter is_writer_finalize (snd (snd (with_Writer lib w body tr)))
            = filter is_writer_finalize tr1)
   \<and> (Writer_create lib' path (Inl fmt) tr' = (Inr w0, tr0)
        \<and> create_archive_body lib' files password level w0 tr0 = (Inl e', w2, tr2) \<longrightarrow>
        create_archive lib' path files fmt password level tr' =
          (Inl e', tr2 @ (if truthy (Writer_handle w0)
                          then [Call_sz_writer_cancel (address (Writer_handle w0))] else []))
        \<and> filter is_writer_finalize (snd (create_archive lib' path files fmt password level tr'))
            = filter is_writer_finalize tr')"
proof (intro conjI impI)
  show "Writer_exit lib (Some e) w1 tr1 = (Inr False, Writer_cancel w1 tr1)"
    by (rule Writer_exit_raised)
next
  assume b: "body w tr = (Inl e, w1, tr1)"
  from with_Writer_raised [where body = body and w = w and tr = tr, OF b]
  show r: "with_Writer lib w body tr = (Inl e, Writer_cancel w1 tr1)" .
  show "snd (Writer_cancel w1 tr1) =
      tr1 @ (if truthy (Writer_handle w1)
             then [Call_sz_writer_cancel (address (Writer_handle w1))] else [])"
    by (rule Writer_cancel_snd)
  show "filter is_writer_finalize (snd (snd (with_Writer lib w body tr)))
      = filter is_writer_finalize tr1"
    by (simp add: r Writer_cancel_snd)
next
  assume a: "Writer_create lib' path (Inl fmt) tr' = (Inr w0, tr0)
      \<and> create_archive_body lib' files password level w0 tr0 = (Inl e', w2, tr2)"
  then have created: "Writer_create lib' path (Inl fmt) tr' = (Inr w0, tr0)"
    and failed: "create_archive_body lib' files password level w0 tr0 = (Inl e', w2, tr2)"
    by simp_all
  from create_archive_body_writer [of lib' files password level w0 tr0] failed
  have w2: "w2 = w0" by simp
  from with_Writer_raised [where body = "create_archive_body lib' files password level"
      and w = w0 and tr = tr0, OF failed]
  have "with_Writer lib' w0 (create_archive_body lib' files password level) tr0
          = (Inl e', Writer_cancel w2 tr2)" .
  with created w2
  have c: "create_archive lib' path files fmt password level tr'
      = (Inl e', snd (Writer_cancel w0 tr2))"
    by (simp add: create_archive_def split: prod.splits)
  then show "create_archive lib' path files fmt password level tr' =
          (Inl e', tr2 @ (if truthy (Writer_handle w0)
                          then [Call_sz_writer_cancel (address (Writer_handle w0))] else []))"
    by (simp add: Writer_cancel_snd)
  from create_archive_body_finalize [of lib' files password level w0 tr0] failed
  have "filter is_writer_finalize tr2 = filter is_writer_finalize tr0" by simp
  moreover from Writer_create_finalize [of lib' path "Inl fmt" tr'] created
  have "filter is_writer_finalize tr0 = filter is_writer_finalize tr'" by simp
  ultimately show "filter is_writer_finalize
        (snd (create_archive lib' path files fmt password level tr'))
      = filter is_writer_finalize tr'"
    by (simp add: c Writer_cancel_snd)
qed

theorem cleanup_cancels_witness:
  "with_Writer lib_ok \<lparr>Writer_handle = Some 9, Writer_finalized = False\<rparr>
     (\<lambda>writer tr. (Inl (HostError ''boom''), writer,
        snd (Writer_add_file lib_ok writer (Str ''a.txt'') None tr))) [] =
     (Inl (HostError ''boom''), \<lparr>Writer_handle = None, Writer_finalized = True\<rparr>,
      [Call_sz_writer_add_file 9 ''a.txt'' ''a.txt'', Call_sz_writer_cancel 9])
   \<and> create_archive lib_add_fails (Str ''o.7z'') [Str ''x/a.txt''] ''7z'' None ''fast'' [] =
     (Inl (SevenZipError ''no such file (code=3)'' FILE_NOT_FOUND),
      [Call_sz_writer_create ''o.7z'' 0, Call_sz_writer_set_compression_level 9 1,
       Call_sz_writer_add_file 9 ''x/a.txt'' ''a.txt'', Call_sz_get_last_error_message,
       Call_sz_writer_cancel 9])
   \<and> filter is_writer_finalize
        (snd (create_archive lib_add_fails (Str ''o.7z'') [Str ''x/a.txt''] ''7z'' None
                ''fast'' [])) = []"
proof -
  let ?w = "\<lparr>Writer_handle = Some 9, Writer_finalized = False\<rparr>"
  let ?body = "\<lambda>writer tr. (Inl (HostError ''boom''), writer,
        snd (Writer_add_file lib_ok writer (Str ''a.txt'') None tr))"
  let ?e = "SevenZipError ''no such file (code=3)'' FILE_NOT_FOUND"
  let ?tr2 = "[Call_sz_writer_create ''o.7z'' 0, Call_sz_writer_set_compression_level 9 1,
       Call_sz_writer_add_file 9 ''x/a.txt'' ''a.txt'', Call_sz_get_last_error_message]"
  have raised: "?body ?w [] =
      (Inl (HostError ''boom''), ?w, [Call_sz_writer_add_file 9 ''a.txt'' ''a.txt''])"
    by (simp add: run_defs)
  have created: "Writer_create lib_add_fails (Str ''o.7z'') (Inl ''7z'') []
      = (Inr ?w, [Call_sz_writer_create ''o.7z'' 0])"
    by (simp add: run_defs)
  have failed: "create_archive_body lib_add_fails [Str ''x/a.txt''] None ''fast'' ?w
      [Call_sz_writer_create ''o.7z'' 0] = (Inl ?e, ?w, ?tr2)"
    by (simp add: run_defs)
  from cleanup_cancels [where body = ?body and w = ?w and tr = "[]" and lib = lib_ok
      and e = "HostError ''boom''" and ?w1.0 = ?w
      and ?tr1.0 = "[Call_sz_writer_add_file 9 ''a.txt'' ''a.txt'']"
      and lib' = lib_add_fails and path = "Str ''o.7z''" and fmt = "''7z''" and tr' = "[]"
      and ?w0.0 = ?w and ?tr0.0 = "[Call_sz_writer_create ''o.7z'' 0]"
      and files = "[Str ''x/a.txt'']" and password = None and level = "''fast''"
      and e' = ?e and ?w2.0 = ?w and ?tr2.0 = ?tr2]
    raised created failed
  show ?thesis
    by (simp add: Writer_cancel_def truthy_def address_def)
qed

section \<open>What extract_archive extracts and writes\<close>


lemma Item_init_undecodable:
  assumes "\<not> path_decodes info"
  shows "Item_init info = Inl UnicodeDecodeError"
  using assms
  by (auto simp: Item_init_def path_decodes_def info_path_def decode_def split: option.splits)

lemma get_item_info_undecodable:
  assumes "truthy (Archive_handle a)"
    and "sz_archive_get_item_info lib tr (address (Archive_handle a)) (word_of_int index)
           = (0, info)"
    and "\<not> path_decodes info"
  shows "fst (Archive_get_item_info lib a index tr) = Inl UnicodeDecodeError"
  using assms by (simp add: Archive_get_item_info_def Item_init_undecodable)


















end
